theory Spec2Isabelle
  imports Main "HOL-Library.Sublist" "HOL-Library.AList"
begin

section \<open>The ec2_ami module: data\<close>

text \<open>
  The module \<^verbatim>\<open>cloud/amazon/ec2_ami.py\<close> sequences calls of the boto EC2 connection.
  The embedding keeps the module's functions (\<^verbatim>\<open>create_image\<close>, \<^verbatim>\<open>deregister_image\<close>,
  \<^verbatim>\<open>update_image\<close>, \<^verbatim>\<open>main\<close>) as HOL functions of
  \<^item> the connection \<open>ec2\<close>, a record of response functions: what a remote call answers,
    given the calls made so far and the call's arguments (any deterministic collaborator
    is such a record);
  \<^item> the module parameters \<open>p\<close> (\<^verbatim>\<open>module.params\<close>);
  \<^item> the history \<open>h\<close>, the list of remote calls and sleeps made so far.
  Each returns the way the run ends (\<^verbatim>\<open>exit_json\<close>, \<^verbatim>\<open>fail_json\<close>, an uncaught
  Python exception) and the extended history, so that "no call is issued" is a statement
  about the history.
\<close>

subsection \<open>Python values\<close>

text \<open>Elements of \<^verbatim>\<open>launch_permissions['user_ids']\<close> arrive as strings or integers.\<close>

datatype pyval = PStr string | PInt int

definition digit_char :: "nat \<Rightarrow> char" where
  "digit_char d = ''0123456789'' ! d"

fun nat_str :: "nat \<Rightarrow> string" where
  "nat_str n =
     (if n < 10 then [digit_char n]
      else nat_str (n div 10) @ [digit_char (n mod 10)])"

declare nat_str.simps [simp del]

definition int_str :: "int \<Rightarrow> string" where
  "int_str i = (if i < 0 then CHR ''-'' # nat_str (nat (- i)) else nat_str (nat i))"

text \<open>\<^verbatim>\<open>str(v)\<close>.\<close>

fun py_str :: "pyval \<Rightarrow> string" where
  "py_str (PStr s) = s"
| "py_str (PInt i) = int_str i"

text \<open>\<^verbatim>\<open>"%s" % v\<close> for a value that is a string or \<^verbatim>\<open>None\<close>.\<close>

definition fmt_s :: "string option \<Rightarrow> string" where
  "fmt_s v = (case v of None \<Rightarrow> ''None'' | Some s \<Rightarrow> s)"

text \<open>
  Truth value of a string, list or dictionary that may be \<^verbatim>\<open>None\<close>: \<^verbatim>\<open>None\<close> and the
  empty value are false.
\<close>

definition truthy :: "'a list option \<Rightarrow> bool" where
  "truthy v = (case v of None \<Rightarrow> False | Some xs \<Rightarrow> xs \<noteq> [])"

text \<open>\<^verbatim>\<open>s in t\<close> on strings: \<open>s\<close> occurs in \<open>t\<close>.\<close>

fun py_in :: "string \<Rightarrow> string \<Rightarrow> bool" where
  "py_in s [] = (s = [])"
| "py_in s (c # cs) = (prefix s (c # cs) \<or> py_in s cs)"

text \<open>A local variable of a Python function: read before its first assignment, it raises.\<close>

datatype 'a var = Unbound | Bound 'a

subsection \<open>Module parameters\<close>

text \<open>
  The launch-permission dictionary, with its two recognised keys (a missing key is
  \<open>None\<close>); \<^verbatim>\<open>set_launch_permissions\<close> accepts no other keyword.
\<close>

record perms =
  user_ids :: "pyval list option"
  group_names :: "string list option"

definition perms_truthy :: "perms \<Rightarrow> bool" where
  "perms_truthy lp = (\<not> (user_ids lp = None \<and> group_names lp = None))"

text \<open>One entry of \<^verbatim>\<open>device_mapping\<close>; a key that is not given is \<open>None\<close>.\<close>

record device =
  device_name :: "string option"
  dev_volume_type :: "string option"
  dev_size :: "int option"
  dev_delete_on_termination :: "bool option"
  dev_no_device :: "bool option"
  dev_snapshot_id :: "string option"
  dev_iops :: "int option"

text \<open>\<^verbatim>\<open>module.params\<close>, with the defaults of \<^verbatim>\<open>argument_spec\<close> in \<open>default_params\<close>.\<close>

record params =
  action :: string
  instance_id :: "string option"
  snapshot_id :: "string option"
  root_device_name :: "string option"
  kernel_id :: "string option"
  virtualization_type :: "string option"
  image_location :: "string option"
  architecture :: string
  delete_root_volume_on_termination :: bool
  sriov_net_support :: "string option"
  image_id :: "string option"
  delete_snapshot :: bool
  name :: "string option"
  wait :: bool
  wait_timeout :: int
  description :: string
  no_reboot :: bool
  state :: string
  device_mapping :: "device list option"
  tags :: "(string \<times> string) list option"
  launch_permissions :: "perms option"

definition default_params :: params where
  "default_params =
     \<lparr>action = ''create'', instance_id = None, snapshot_id = None,
      root_device_name = None, kernel_id = None, virtualization_type = None,
      image_location = None, architecture = ''x86_64'',
      delete_root_volume_on_termination = False, sriov_net_support = None,
      image_id = None, delete_snapshot = False, name = None, wait = False,
      wait_timeout = 900, description = [], no_reboot = False, state = ''present'',
      device_mapping = None, tags = None, launch_permissions = None\<rparr>"

subsection \<open>Images as the connection returns them\<close>

record block_device =
  bd_size :: "int option"
  bd_snapshot_id :: "string option"
  bd_volume_type :: "string option"
  bd_encrypted :: "bool option"
  bd_delete_on_termination :: "bool option"

text \<open>
  An image object. The module asks \<^verbatim>\<open>hasattr(img, 'id')\<close> and
  \<^verbatim>\<open>hasattr(img, 'block_device_mapping')\<close>: these two attributes may be missing
  (\<open>None\<close>), the others are there. The block device mapping is a dictionary, kept as an
  association list in iteration order.
\<close>

record image =
  img_id :: "string option"
  img_state :: string
  img_architecture :: string
  img_block_device_mapping :: "(string \<times> block_device) list option"
  img_creationDate :: string
  img_description :: string
  img_hypervisor :: string
  img_is_public :: bool
  img_location :: string
  img_ownerId :: string
  img_root_device_name :: string
  img_root_device_type :: string
  img_tags :: "(string \<times> string) list"
  img_virtualization_type :: string

text \<open>The dictionary that \<^verbatim>\<open>get_ami_info\<close> builds.\<close>

record ami_info =
  info_image_id :: string
  info_state :: string
  info_architecture :: string
  info_block_device_mapping :: "(string \<times> block_device) list"
  info_creationDate :: string
  info_description :: string
  info_hypervisor :: string
  info_is_public :: bool
  info_location :: string
  info_ownerId :: string
  info_root_device_name :: string
  info_root_device_type :: string
  info_tags :: "(string \<times> string) list"
  info_virtualization_type :: string

subsection \<open>Exceptions and the ways a run ends\<close>

text \<open>
  What a remote call raises: \<^verbatim>\<open>boto.exception.EC2ResponseError\<close> (a subclass of
  \<^verbatim>\<open>BotoServerError\<close>), another \<^verbatim>\<open>BotoServerError\<close>, both with \<^verbatim>\<open>error_code\<close> and
  \<^verbatim>\<open>error_message\<close>, or an exception outside that family.
\<close>

datatype exn =
    EC2ResponseError string string
  | BotoServerError string string
  | OtherException string

text \<open>\<^verbatim>\<open>except boto.exception.BotoServerError as e\<close>: code and message when it catches.\<close>

fun server_error :: "exn \<Rightarrow> (string \<times> string) option" where
  "server_error (EC2ResponseError c m) = Some (c, m)"
| "server_error (BotoServerError c m) = Some (c, m)"
| "server_error (OtherException s) = None"

text \<open>\<^verbatim>\<open>except boto.exception.EC2ResponseError as e\<close>.\<close>

fun ec2_response_error :: "exn \<Rightarrow> (string \<times> string) option" where
  "ec2_response_error (EC2ResponseError c m) = Some (c, m)"
| "ec2_response_error (BotoServerError c m) = None"
| "ec2_response_error (OtherException s) = None"

datatype py_exn =
    Remote exn
  | UnboundLocalError string
  | AttributeError string
  | TypeError string

text \<open>
  The keyword arguments of \<^verbatim>\<open>module.exit_json\<close> and \<^verbatim>\<open>module.fail_json\<close>; a keyword
  that is not passed is \<open>None\<close>. \<^verbatim>\<open>**get_ami_info(img)\<close> passes \<^verbatim>\<open>image_id\<close>,
  \<^verbatim>\<open>state\<close> and the other entries of the dictionary, kept whole in \<open>r_ami_info\<close>.
\<close>

record result =
  msg :: string
  changed :: "bool option"
  r_image_id :: "string option"
  r_state :: "string option"
  snapshots_deleted :: "string option list option"
  r_launch_permissions :: "perms option"
  set_perms :: "perms option"
  r_ami_info :: "ami_info option"

definition kw :: "string \<Rightarrow> result" where
  "kw m = \<lparr>msg = m, changed = None, r_image_id = None, r_state = None,
          snapshots_deleted = None, r_launch_permissions = None, set_perms = None,
          r_ami_info = None\<rparr>"

text \<open>
  \<^verbatim>\<open>exit_json\<close> and \<^verbatim>\<open>fail_json\<close> of \<^verbatim>\<open>AnsibleModule\<close> both end the process:
  \<^verbatim>\<open>exit_json\<close> reports success, \<^verbatim>\<open>fail_json\<close> reports a failure (\<^verbatim>\<open>failed=True\<close>,
  exit status 1). An exception that no handler catches ends it with a traceback.
  \<open>Returned\<close>: the function came to its end without either.
\<close>

datatype outcome =
    Exit_json result
  | Fail_json result
  | Uncaught py_exn
  | Returned

text \<open>The handler \<^verbatim>\<open>module.fail_json(msg="%s: %s" % (e.error_code, e.error_message))\<close>.\<close>

definition code_msg :: "string \<Rightarrow> string \<Rightarrow> string" where
  "code_msg c m = c @ '': '' @ m"

definition on_exn :: "exn \<Rightarrow> outcome" where
  "on_exn e =
     (case server_error e of
        Some (c, m) \<Rightarrow> Fail_json (kw (code_msg c m))
      | None \<Rightarrow> Uncaught (Remote e))"

subsection \<open>The connection\<close>

text \<open>Arguments of \<^verbatim>\<open>ec2.create_image(**params)\<close> and \<^verbatim>\<open>ec2.register_image(**register_params)\<close>.\<close>

record create_args =
  c_instance_id :: "string option"
  c_name :: "string option"
  c_description :: string
  c_no_reboot :: bool
  c_block_device_mapping :: "(string \<times> device) list option"

record register_args =
  reg_snapshot_id :: "string option"
  reg_root_device_name :: "string option"
  reg_kernel_id :: "string option"
  reg_virtualization_type :: "string option"
  reg_name :: "string option"
  reg_image_location :: "string option"
  reg_delete_root_volume_on_termination :: bool
  reg_sriov_net_support :: "string option"
  reg_block_device_mapping :: "(string \<times> device) list option"

text \<open>A remote call with its arguments, or \<^verbatim>\<open>time.sleep(n)\<close>.\<close>

datatype call =
    GetAllImages "string option"
  | GetImage "string option"
  | CreateImage create_args
  | RegisterImage register_args
  | DeregisterImage "string option" bool
  | DeleteSnapshot "string option"
  | CreateTags string "(string \<times> string) list"
  | GetLaunchPermissions "string option"
  | SetLaunchPermissions "string option" perms
  | RemoveLaunchPermissions "string option" perms
  | Sleep nat

text \<open>
  The collaborator: each field answers one kind of call, from the history before the call
  and the call's arguments, with a value or an exception (\<open>Inl\<close>). The three
  permission methods are methods of an image object; they act on that image's id.
  The clock: \<open>start_time\<close> is what \<^verbatim>\<open>time.time()\<close> reads before any call, in whole
  seconds; \<open>latency c\<close> is how long the remote call \<open>c\<close> takes.
\<close>

record ec2 =
  ec2_get_all_images :: "call list \<Rightarrow> string option \<Rightarrow> exn + image list"
  ec2_get_image :: "call list \<Rightarrow> string option \<Rightarrow> exn + image option"
  ec2_create_image :: "call list \<Rightarrow> create_args \<Rightarrow> exn + string"
  ec2_register_image :: "call list \<Rightarrow> register_args \<Rightarrow> exn + string"
  ec2_deregister_image :: "call list \<Rightarrow> string option \<Rightarrow> bool \<Rightarrow> exn + bool"
  ec2_delete_snapshot :: "call list \<Rightarrow> string option \<Rightarrow> exn + bool"
  ec2_create_tags :: "call list \<Rightarrow> string \<Rightarrow> (string \<times> string) list \<Rightarrow> exn + bool"
  img_get_launch_permissions :: "call list \<Rightarrow> string option \<Rightarrow> exn + perms"
  img_set_launch_permissions :: "call list \<Rightarrow> string option \<Rightarrow> perms \<Rightarrow> exn + bool"
  img_remove_launch_permissions :: "call list \<Rightarrow> string option \<Rightarrow> perms \<Rightarrow> exn + bool"
  start_time :: int
  latency :: "call \<Rightarrow> nat"

fun duration :: "ec2 \<Rightarrow> call \<Rightarrow> nat" where
  "duration ec2 (Sleep n) = n"
| "duration ec2 c = latency ec2 c"

text \<open>
  \<^verbatim>\<open>time.time()\<close> after the history \<open>h\<close>: the clock moves while the module sleeps or
  waits for a remote call, and only then.
\<close>

definition time_time :: "ec2 \<Rightarrow> call list \<Rightarrow> int" where
  "time_time ec2 h = start_time ec2 + int (sum_list (map (duration ec2) h))"

section \<open>The ec2_ami module: functions\<close>

subsection \<open>get_ami_info\<close>

definition get_block_device_mapping :: "image \<Rightarrow> (string \<times> block_device) list" where
  "get_block_device_mapping img =
     (case img_block_device_mapping img of None \<Rightarrow> [] | Some bdm \<Rightarrow> bdm)"

text \<open>\<^verbatim>\<open>image.id\<close> raises \<^verbatim>\<open>AttributeError\<close> on an object that has no such attribute.\<close>

definition get_ami_info :: "image \<Rightarrow> py_exn + ami_info" where
  "get_ami_info img =
     (case img_id img of
        None \<Rightarrow> Inl (AttributeError ''id'')
      | Some i \<Rightarrow>
          Inr \<lparr>info_image_id = i, info_state = img_state img,
               info_architecture = img_architecture img,
               info_block_device_mapping = get_block_device_mapping img,
               info_creationDate = img_creationDate img,
               info_description = img_description img,
               info_hypervisor = img_hypervisor img,
               info_is_public = img_is_public img,
               info_location = img_location img,
               info_ownerId = img_ownerId img,
               info_root_device_name = img_root_device_name img,
               info_root_device_type = img_root_device_type img,
               info_tags = img_tags img,
               info_virtualization_type = img_virtualization_type img\<rparr>)"

subsection \<open>create_image\<close>

text \<open>
  Lines 460-470: the loop over \<^verbatim>\<open>device_mapping\<close>. \<open>None\<close>: an entry has no
  \<^verbatim>\<open>device_name\<close> (the module fails there). Otherwise the mapping, keyed by device name,
  each value the entry without its name.
\<close>

fun build_bdm :: "device list \<Rightarrow> (string \<times> device) list \<Rightarrow> (string \<times> device) list option" where
  "build_bdm [] bdm = Some bdm"
| "build_bdm (d # ds) bdm =
     (case device_name d of
        None \<Rightarrow> None
      | Some n \<Rightarrow> build_bdm ds (AList.update n (d\<lparr>device_name := None\<rparr>) bdm))"

text \<open>
  Lines 460-470 as a whole: \<open>None\<close> when the module fails on an entry without a name,
  \<open>Some None\<close> when \<^verbatim>\<open>device_mapping\<close> is not given or empty (no mapping is passed on).
\<close>

definition device_mapping_of :: "params \<Rightarrow> (string \<times> device) list option option" where
  "device_mapping_of p =
     (case device_mapping p of
        None \<Rightarrow> Some None
      | Some ds \<Rightarrow> if ds = [] then Some None else map_option Some (build_bdm ds []))"

definition create_params :: "params \<Rightarrow> (string \<times> device) list option \<Rightarrow> create_args" where
  "create_params p bdm =
     \<lparr>c_instance_id = instance_id p, c_name = name p, c_description = description p,
      c_no_reboot = no_reboot p, c_block_device_mapping = bdm\<rparr>"

definition register_params :: "params \<Rightarrow> (string \<times> device) list option \<Rightarrow> register_args" where
  "register_params p bdm =
     \<lparr>reg_snapshot_id = snapshot_id p, reg_root_device_name = root_device_name p,
      reg_kernel_id = kernel_id p, reg_virtualization_type = virtualization_type p,
      reg_name = name p, reg_image_location = image_location p,
      reg_delete_root_volume_on_termination = delete_root_volume_on_termination p,
      reg_sriov_net_support = sriov_net_support p, reg_block_device_mapping = bdm\<rparr>"

text \<open>
  Lines 472-475, inside the \<^verbatim>\<open>try\<close>: the two calls that assign \<^verbatim>\<open>image_id\<close>, each
  under its own \<^verbatim>\<open>if\<close>. \<open>Inl\<close>: the call raised.
\<close>

definition issue_calls ::
  "ec2 \<Rightarrow> params \<Rightarrow> (string \<times> device) list option \<Rightarrow> call list \<Rightarrow> (exn + string var) \<times> call list" where
  "issue_calls ec2 p bdm h =
     (let (r1, h1) =
        (if truthy (instance_id p) then
           (case ec2_create_image ec2 h (create_params p bdm) of
              Inl e \<Rightarrow> (Inl e, h @ [CreateImage (create_params p bdm)])
            | Inr i \<Rightarrow> (Inr (Bound i), h @ [CreateImage (create_params p bdm)]))
         else (Inr Unbound, h))
      in case r1 of
           Inl e \<Rightarrow> (Inl e, h1)
         | Inr v \<Rightarrow>
             if truthy (snapshot_id p) then
               (case ec2_register_image ec2 h1 (register_params p bdm) of
                  Inl e \<Rightarrow> (Inl e, h1 @ [RegisterImage (register_params p bdm)])
                | Inr i \<Rightarrow> (Inr (Bound i), h1 @ [RegisterImage (register_params p bdm)]))
             else (Inr v, h1))"

text \<open>
  Lines 440-478, the \<^verbatim>\<open>try\<close> block and its handler. \<open>Inl\<close>: the run ended here;
  \<open>Inr v\<close>: the block completed with the variable \<^verbatim>\<open>image_id\<close> in the state \<open>v\<close>.
  An image object counts as true, so \<^verbatim>\<open>images and images[0]\<close> asks whether the list
  has an element.
\<close>

definition request_image :: "ec2 \<Rightarrow> params \<Rightarrow> call list \<Rightarrow> (outcome + string var) \<times> call list" where
  "request_image ec2 p h =
     (let h1 = h @ [GetAllImages (name p)] in
      case ec2_get_all_images ec2 h (name p) of
        Inl e \<Rightarrow> (Inl (on_exn e), h1)
      | Inr (i # rest) \<Rightarrow>
          (case img_id i of
             None \<Rightarrow> (Inl (Uncaught (AttributeError ''id'')), h1)
           | Some iid \<Rightarrow>
               (Inl (Exit_json ((kw ''AMI name already present'')
                      \<lparr>r_image_id := Some iid, r_state := Some (img_state i),
                       changed := Some False\<rparr>)), h1))
      | Inr [] \<Rightarrow>
          (case device_mapping_of p of
             None \<Rightarrow> (Inl (Fail_json (kw ''Device name must be set for volume'')), h1)
           | Some bdm \<Rightarrow>
               (case issue_calls ec2 p bdm h1 of
                  (Inl e, h2) \<Rightarrow> (Inl (on_exn e), h2)
                | (Inr v, h2) \<Rightarrow> (Inr v, h2))))"

definition not_found_msg :: string where
  "not_found_msg =
     ''Error while trying to find the new image. Using wait=yes and/or a longer wait_timeout may help.''"

text \<open>
  Lines 483-493: \<^verbatim>\<open>for i in range(wait_timeout)\<close>, as a recursion over the list of the
  values of \<open>i\<close> still to come. \<open>w\<close> is \<^verbatim>\<open>wait\<close>, \<open>wt\<close> is \<^verbatim>\<open>wait_timeout\<close>,
  \<open>iv\<close> the variable \<^verbatim>\<open>image_id\<close>, \<open>img\<close> the variable \<^verbatim>\<open>img\<close>. The
  \<^verbatim>\<open>finally\<close> clause sleeps on every way out of the body. \<open>Inr\<close>: the loop is over
  (by \<^verbatim>\<open>break\<close> or exhausted) with \<^verbatim>\<open>img\<close> as given.
\<close>

fun poll ::
  "ec2 \<Rightarrow> bool \<Rightarrow> int \<Rightarrow> string var \<Rightarrow> nat list \<Rightarrow> image var \<Rightarrow> call list
     \<Rightarrow> (outcome + image var) \<times> call list" where
  "poll ec2 w wt iv [] img h = (Inr img, h)"
| "poll ec2 w wt iv (i # is) img h =
     (case iv of
        Unbound \<Rightarrow> (Inl (Uncaught (UnboundLocalError ''image_id'')), h @ [Sleep 1])
      | Bound iid \<Rightarrow>
          (let h1 = h @ [GetImage (Some iid), Sleep 1] in
           case ec2_get_image ec2 h (Some iid) of
             Inr None \<Rightarrow> (Inl (Uncaught (AttributeError ''state'')), h1)
           | Inr (Some im) \<Rightarrow>
               if img_state im = ''available'' then (Inr (Bound im), h1)
               else poll ec2 w wt iv is (Bound im) h1
           | Inl e \<Rightarrow>
               (case ec2_response_error e of
                  None \<Rightarrow> (Inl (Uncaught (Remote e)), h1)
                | Some (c, m) \<Rightarrow>
                    if (\<not> py_in ''InvalidAMIID.NotFound'' c \<and> \<not> py_in ''InvalidAMIID.Unavailable'' c)
                       \<and> w \<and> int i = wt - 1
                    then (Inl (Fail_json (kw (not_found_msg @ '' '' @ code_msg c m))), h1)
                    else poll ec2 w wt iv is img h1)))"

text \<open>Lines 498-502: tagging. \<open>Some\<close>: the run ended here.\<close>

definition apply_tags :: "ec2 \<Rightarrow> params \<Rightarrow> string var \<Rightarrow> call list \<Rightarrow> outcome option \<times> call list" where
  "apply_tags ec2 p iv h =
     (case tags p of
        None \<Rightarrow> (None, h)
      | Some ts \<Rightarrow>
          if ts = [] then (None, h)
          else
            (case iv of
               Unbound \<Rightarrow> (Some (Uncaught (UnboundLocalError ''image_id'')), h)
             | Bound iid \<Rightarrow>
                 (case ec2_create_tags ec2 h iid ts of
                    Inr _ \<Rightarrow> (None, h @ [CreateTags iid ts])
                  | Inl e \<Rightarrow>
                      (case ec2_response_error e of
                         Some (c, m) \<Rightarrow>
                           (Some (Fail_json (kw (''Image tagging failed => '' @ code_msg c m))),
                            h @ [CreateTags iid ts])
                       | None \<Rightarrow> (Some (Uncaught (Remote e)), h @ [CreateTags iid ts])))))"

text \<open>
  Lines 503-508: launch permissions. \<open>Inl\<close>: the run ended here; \<open>Inr\<close>: the value of
  \<^verbatim>\<open>img\<close> afterwards.
\<close>

definition apply_permissions ::
  "ec2 \<Rightarrow> params \<Rightarrow> string var \<Rightarrow> image \<Rightarrow> call list \<Rightarrow> (outcome + image) \<times> call list" where
  "apply_permissions ec2 p iv img h =
     (case launch_permissions p of
        None \<Rightarrow> (Inr img, h)
      | Some lp \<Rightarrow>
          if \<not> perms_truthy lp then (Inr img, h)
          else
            (case iv of
               Unbound \<Rightarrow> (Inl (Uncaught (UnboundLocalError ''image_id'')), h)
             | Bound iid \<Rightarrow>
                 (let h1 = h @ [GetImage (Some iid)];
                      failed = (\<lambda>e. case server_error e of
                                  Some (c, m) \<Rightarrow> Fail_json ((kw (code_msg c m))\<lparr>r_image_id := Some iid\<rparr>)
                                | None \<Rightarrow> Uncaught (Remote e))
                  in case ec2_get_image ec2 h (Some iid) of
                       Inl e \<Rightarrow> (Inl (failed e), h1)
                     | Inr None \<Rightarrow> (Inl (Uncaught (AttributeError ''set_launch_permissions'')), h1)
                     | Inr (Some im) \<Rightarrow>
                         (case img_set_launch_permissions ec2 h1 (img_id im) lp of
                            Inl e \<Rightarrow> (Inl (failed e), h1 @ [SetLaunchPermissions (img_id im) lp])
                          | Inr _ \<Rightarrow> (Inr im, h1 @ [SetLaunchPermissions (img_id im) lp])))))"

text \<open>Lines 495-510: what follows the polling loop.\<close>

definition after_poll :: "ec2 \<Rightarrow> params \<Rightarrow> string var \<Rightarrow> image var \<Rightarrow> call list \<Rightarrow> outcome \<times> call list" where
  "after_poll ec2 p iv img h =
     (case img of
        Unbound \<Rightarrow> (Uncaught (UnboundLocalError ''img''), h)
      | Bound im \<Rightarrow>
          if img_state im \<noteq> ''available'' then (Fail_json (kw not_found_msg), h)
          else
            (case apply_tags ec2 p iv h of
               (Some out, h1) \<Rightarrow> (out, h1)
             | (None, h1) \<Rightarrow>
                 (case apply_permissions ec2 p iv im h1 of
                    (Inl out, h2) \<Rightarrow> (out, h2)
                  | (Inr im2, h2) \<Rightarrow>
                      (case get_ami_info im2 of
                         Inl x \<Rightarrow> (Uncaught x, h2)
                       | Inr a \<Rightarrow>
                           (Exit_json ((kw ''AMI creation operation complete'')
                              \<lparr>changed := Some True, r_image_id := Some (info_image_id a),
                               r_state := Some (info_state a), r_ami_info := Some a\<rparr>), h2)))))"

text \<open>Lines 483-510, from the state of \<^verbatim>\<open>image_id\<close> that the \<^verbatim>\<open>try\<close> block left.\<close>

definition poll_and_finish :: "ec2 \<Rightarrow> params \<Rightarrow> string var \<Rightarrow> call list \<Rightarrow> outcome \<times> call list" where
  "poll_and_finish ec2 p iv h =
     (case poll ec2 (wait p) (wait_timeout p) iv [0..<nat (wait_timeout p)] Unbound h of
        (Inl out, h1) \<Rightarrow> (out, h1)
      | (Inr img, h1) \<Rightarrow> after_poll ec2 p iv img h1)"

definition create_image :: "ec2 \<Rightarrow> params \<Rightarrow> call list \<Rightarrow> outcome \<times> call list" where
  "create_image ec2 p h =
     (case request_image ec2 p h of
        (Inl out, h1) \<Rightarrow> (out, h1)
      | (Inr iv, h1) \<Rightarrow> poll_and_finish ec2 p iv h1)"

subsection \<open>deregister_image\<close>

text \<open>
  Lines 548-550: \<^verbatim>\<open>while wait and wait_timeout > time.time() and img is not None\<close>,
  with \<open>deadline\<close> the value that line 547 gave \<^verbatim>\<open>wait_timeout\<close>. Each round fetches
  the image and sleeps 3 seconds. \<open>Inl\<close>: the fetch raised; \<open>Inr\<close>: the loop is
  over with \<^verbatim>\<open>img\<close> as given. The loop ends on every connection: each round moves
  the clock by the 3 seconds of its sleep at least.
\<close>

function wait_until_gone ::
  "ec2 \<Rightarrow> string option \<Rightarrow> bool \<Rightarrow> int \<Rightarrow> image option \<Rightarrow> call list
     \<Rightarrow> (exn + image option) \<times> call list" where
  "wait_until_gone ec2 iid w deadline img h =
     (if w \<and> deadline > time_time ec2 h \<and> img \<noteq> None then
        (case ec2_get_image ec2 h iid of
           Inl e \<Rightarrow> (Inl e, h @ [GetImage iid])
         | Inr img' \<Rightarrow> wait_until_gone ec2 iid w deadline img' (h @ [GetImage iid, Sleep 3]))
      else (Inr img, h))"
  by pat_completeness auto
termination
  by (relation "measure (\<lambda>(ec2, iid, w, deadline, img, h). nat (deadline - time_time ec2 h))")
     (auto simp: time_time_def)

declare wait_until_gone.simps [simp del]

text \<open>
  Lines 559-560: the loop over the captured snapshot ids, inside the \<^verbatim>\<open>try\<close>.
  \<open>Some e\<close>: a deletion raised \<open>e\<close>, which ends the loop.
\<close>

fun delete_snapshots :: "ec2 \<Rightarrow> string option list \<Rightarrow> call list \<Rightarrow> exn option \<times> call list" where
  "delete_snapshots ec2 [] h = (None, h)"
| "delete_snapshots ec2 (s # ss) h =
     (case ec2_delete_snapshot ec2 h s of
        Inl e \<Rightarrow> (Some e, h @ [DeleteSnapshot s])
      | Inr _ \<Rightarrow> delete_snapshots ec2 ss (h @ [DeleteSnapshot s]))"

definition complete_msg :: string where
  "complete_msg = ''AMI deregister/delete operation complete''"

text \<open>
  Lines 557-567. The handler of line 561 catches every \<^verbatim>\<open>BotoServerError\<close>; its body
  is an \<^verbatim>\<open>if\<close> on the error code with \<^verbatim>\<open>pass\<close> as its only branch, so the run goes
  on to \<^verbatim>\<open>exit_json\<close> whatever the code is.
\<close>

definition finish_deregister ::
  "ec2 \<Rightarrow> params \<Rightarrow> string option list \<Rightarrow> call list \<Rightarrow> outcome \<times> call list" where
  "finish_deregister ec2 p snapshots h =
     (if delete_snapshot p then
        (let done = Exit_json ((kw complete_msg)
                      \<lparr>changed := Some True, snapshots_deleted := Some snapshots\<rparr>)
         in case delete_snapshots ec2 snapshots h of
              (None, h1) \<Rightarrow> (done, h1)
            | (Some e, h1) \<Rightarrow>
                (case server_error e of
                   None \<Rightarrow> (Uncaught (Remote e), h1)
                 | Some (c, m) \<Rightarrow>
                     if c = ''InvalidSnapshot.NotFound'' then (done, h1) else (done, h1)))
      else (Exit_json ((kw complete_msg)\<lparr>changed := Some True\<rparr>), h))"

text \<open>Lines 546-567: after a deregistration call that did not raise.\<close>

definition wait_and_finish ::
  "ec2 \<Rightarrow> params \<Rightarrow> string option list \<Rightarrow> call list \<Rightarrow> outcome \<times> call list" where
  "wait_and_finish ec2 p snapshots h =
     (case ec2_get_image ec2 h (image_id p) of
        Inl e \<Rightarrow> (Uncaught (Remote e), h @ [GetImage (image_id p)])
      | Inr img \<Rightarrow>
          (let h1 = h @ [GetImage (image_id p)];
               deadline = time_time ec2 h1 + wait_timeout p
           in case wait_until_gone ec2 (image_id p) (wait p) deadline img h1 of
                (Inl e, h2) \<Rightarrow> (Uncaught (Remote e), h2)
              | (Inr img', h2) \<Rightarrow>
                  if wait p \<and> deadline \<le> time_time ec2 h2
                  then (Fail_json (kw ''timed out waiting for image to be deregistered/deleted''), h2)
                  else finish_deregister ec2 p snapshots h2))"

definition deregister_image :: "ec2 \<Rightarrow> params \<Rightarrow> call list \<Rightarrow> outcome \<times> call list" where
  "deregister_image ec2 p h =
     (let h1 = h @ [GetImage (image_id p)] in
      case ec2_get_image ec2 h (image_id p) of
        Inl e \<Rightarrow> (Uncaught (Remote e), h1)
      | Inr None \<Rightarrow>
          (Fail_json ((kw (''Image '' @ fmt_s (image_id p) @ '' does not exist''))
             \<lparr>changed := Some False\<rparr>), h1)
      | Inr (Some img) \<Rightarrow>
          (let snapshots =
             (case img_block_device_mapping img of
                None \<Rightarrow> []
              | Some bdm \<Rightarrow> map (\<lambda>(key, bd). bd_snapshot_id bd) bdm)
           in case img_id img of
                None \<Rightarrow>
                  (Exit_json ((kw (''Image '' @ fmt_s (image_id p) @ '' has already been deleted''))
                     \<lparr>changed := Some False\<rparr>), h1)
              | Some _ \<Rightarrow>
                  (case ec2_deregister_image ec2 h1 (image_id p) (delete_snapshot p) of
                     Inl e \<Rightarrow> (on_exn e, h1 @ [DeregisterImage (image_id p) (delete_snapshot p)])
                   | Inr _ \<Rightarrow>
                       wait_and_finish ec2 p snapshots
                         (h1 @ [DeregisterImage (image_id p) (delete_snapshot p)]))))"

subsection \<open>update_image\<close>

text \<open>Line 578: \<^verbatim>\<open>[str(user_id) for user_id in launch_permissions['user_ids']]\<close>.\<close>

definition str_user_ids :: "perms \<Rightarrow> perms" where
  "str_user_ids lp =
     (case user_ids lp of
        None \<Rightarrow> lp
      | Some us \<Rightarrow> lp\<lparr>user_ids := Some (map (\<lambda>u. PStr (py_str u)) us)\<rparr>)"

text \<open>
  Lines 587 and 589: \<^verbatim>\<open>('user_ids' in d and d['user_ids']) or ('group_names' in d and
  d['group_names'])\<close>.
\<close>

definition has_any :: "perms \<Rightarrow> bool" where
  "has_any d = (truthy (user_ids d) \<or> truthy (group_names d))"

definition update_image :: "ec2 \<Rightarrow> params \<Rightarrow> call list \<Rightarrow> outcome \<times> call list" where
  "update_image ec2 p h =
     (case launch_permissions p of
        None \<Rightarrow> (Uncaught (TypeError ''argument of type NoneType is not iterable''), h)
      | Some lp0 \<Rightarrow>
          (let lp = str_user_ids lp0; h1 = h @ [GetImage (image_id p)] in
           case ec2_get_image ec2 h (image_id p) of
             Inl e \<Rightarrow> (Uncaught (Remote e), h1)
           | Inr None \<Rightarrow>
               (Fail_json ((kw (''Image '' @ fmt_s (image_id p) @ '' does not exist''))
                  \<lparr>changed := Some False\<rparr>), h1)
           | Inr (Some img) \<Rightarrow>
               (let h2 = h1 @ [GetLaunchPermissions (img_id img)] in
                case img_get_launch_permissions ec2 h1 (img_id img) of
                  Inl e \<Rightarrow> (on_exn e, h2)
                | Inr set_permissions \<Rightarrow>
                    (let not_updated = Exit_json ((kw ''AMI not updated'')
                           \<lparr>r_launch_permissions := Some set_permissions, changed := Some False\<rparr>);
                         updated = Exit_json ((kw ''AMI launch permissions updated'')
                           \<lparr>r_launch_permissions := Some lp, set_perms := Some set_permissions,
                            changed := Some True\<rparr>)
                     in if set_permissions \<noteq> lp then
                          (if has_any lp then
                             (case img_set_launch_permissions ec2 h2 (img_id img) lp of
                                Inl e \<Rightarrow> (on_exn e, h2 @ [SetLaunchPermissions (img_id img) lp])
                              | Inr _ \<Rightarrow> (updated, h2 @ [SetLaunchPermissions (img_id img) lp]))
                           else if has_any set_permissions then
                             (case img_remove_launch_permissions ec2 h2 (img_id img) set_permissions of
                                Inl e \<Rightarrow>
                                  (on_exn e, h2 @ [RemoveLaunchPermissions (img_id img) set_permissions])
                              | Inr _ \<Rightarrow>
                                  (updated, h2 @ [RemoveLaunchPermissions (img_id img) set_permissions]))
                           else (not_updated, h2))
                        else (not_updated, h2)))))"

subsection \<open>main\<close>

text \<open>
  Lines 655-682, the checks of \<^verbatim>\<open>action == "register"\<close>, in their order: the message of
  the first one that fails.
\<close>

definition register_checks :: "params \<Rightarrow> string option" where
  "register_checks p =
     (if \<not> truthy (virtualization_type p)
        then Some ''virtualization_type is required for new image''
      else if virtualization_type p \<notin> set [Some ''paravirtual'', Some ''hvm'']
        then Some ''virtualization_type must be either paravirtual or hvm''
      else if \<not> truthy (snapshot_id p) \<and> \<not> truthy (device_mapping p)
        then Some ''either snapshot_id or device_mapping is required for new image''
      else if truthy (snapshot_id p) \<and> truthy (device_mapping p)
        then Some ''device_mapping is mutually exclusive with snapshot_id''
      else if architecture p \<notin> set [''x86_64'', ''i386'']
        then Some ''architecture must be eith x86_64 or i386''
      else if delete_root_volume_on_termination p \<and> \<not> truthy (snapshot_id p)
        then Some ''snapshot_id is required when using delete_root_volume_on_termination''
      else if truthy (sriov_net_support p) \<and> sriov_net_support p \<notin> set [None, Some ''simple'']
        then Some ''sriov_net_support must be simple or not set''
      else None)"

text \<open>Line 643: \<^verbatim>\<open>image_id\<close> and \<^verbatim>\<open>launch_permissions\<close> are both given.\<close>

definition wants_update :: "params \<Rightarrow> bool" where
  "wants_update p =
     (truthy (image_id p) \<and>
      (case launch_permissions p of None \<Rightarrow> False | Some lp \<Rightarrow> perms_truthy lp))"

text \<open>
  \<^verbatim>\<open>main\<close> from line 636 on, with the connection made. \<^verbatim>\<open>update_image\<close> ends the run on
  each of its paths, so nothing of \<^verbatim>\<open>main\<close> runs after it.
\<close>

definition main :: "ec2 \<Rightarrow> params \<Rightarrow> call list \<Rightarrow> outcome \<times> call list" where
  "main ec2 p h =
     (if state p = ''absent'' then
        (if \<not> truthy (image_id p)
         then (Fail_json (kw ''image_id needs to be an ami image to registered/delete''), h)
         else deregister_image ec2 p h)
      else if state p = ''present'' then
        (if wants_update p
         then update_image ec2 p h
         else if action p \<notin> set [''create'', ''register'']
           then (Fail_json (kw ''action must be create or register''), h)
         else if action p = ''create'' \<and> \<not> truthy (instance_id p)
           then (Fail_json (kw ''instance_id is required for new image''), h)
         else
           (case (if action p = ''register'' then register_checks p else None) of
              Some m \<Rightarrow> (Fail_json (kw m), h)
            | None \<Rightarrow>
                if \<not> truthy (name p)
                then (Fail_json (kw ''name parameter is required for new image''), h)
                else create_image ec2 p h))
      else (Returned, h))"

section \<open>Predicates on outcomes and histories\<close>

text \<open>The run reported a failure or died of an exception.\<close>

fun reports_failure :: "outcome \<Rightarrow> bool" where
  "reports_failure (Exit_json r) = False"
| "reports_failure (Fail_json r) = True"
| "reports_failure (Uncaught x) = True"
| "reports_failure Returned = False"

text \<open>
  Calls of lines 483-510 that act on the image \<open>i\<close>: a fetch or a tagging call with that
  id, a permission call (made on the image object just fetched), and the sleeps between
  them.
\<close>

fun on_image :: "string \<Rightarrow> call \<Rightarrow> bool" where
  "on_image i (GetImage j) = (j = Some i)"
| "on_image i (CreateTags j ts) = (j = i)"
| "on_image i (SetLaunchPermissions j lp) = True"
| "on_image i (Sleep n) = True"
| "on_image i c = False"

section \<open>Connections and requests for the concrete runs\<close>

subsection \<open>Images\<close>

definition mk_image :: "string \<Rightarrow> string \<Rightarrow> image" where
  "mk_image i s =
     \<lparr>img_id = Some i, img_state = s, img_architecture = ''x86_64'',
      img_block_device_mapping = None, img_creationDate = ''2015-10-15T22:43:44.000Z'',
      img_description = [], img_hypervisor = ''xen'', img_is_public = False,
      img_location = [], img_ownerId = ''435210894375'',
      img_root_device_name = ''/dev/sda1'', img_root_device_type = ''ebs'',
      img_tags = [], img_virtualization_type = ''hvm''\<rparr>"

text \<open>What \<^verbatim>\<open>get_ami_info\<close> makes of \<open>mk_image i s\<close>.\<close>

definition mk_info :: "string \<Rightarrow> string \<Rightarrow> ami_info" where
  "mk_info i s =
     \<lparr>info_image_id = i, info_state = s, info_architecture = ''x86_64'',
      info_block_device_mapping = [], info_creationDate = ''2015-10-15T22:43:44.000Z'',
      info_description = [], info_hypervisor = ''xen'', info_is_public = False,
      info_location = [], info_ownerId = ''435210894375'',
      info_root_device_name = ''/dev/sda1'', info_root_device_type = ''ebs'',
      info_tags = [], info_virtualization_type = ''hvm''\<rparr>"

definition volume :: "string \<Rightarrow> block_device" where
  "volume s = \<lparr>bd_size = Some 8, bd_snapshot_id = Some s, bd_volume_type = Some ''gp2'',
               bd_encrypted = Some False, bd_delete_on_termination = Some True\<rparr>"

text \<open>An image with two volumes.\<close>

definition two_volume_image :: image where
  "two_volume_image =
     (mk_image ''ami-1'' ''available'')
       \<lparr>img_block_device_mapping :=
          Some [(''/dev/sda1'', volume ''snap-1''), (''/dev/sdb'', volume ''snap-2'')]\<rparr>"

subsection \<open>Connections\<close>

text \<open>A connection on which every call succeeds and no image exists.\<close>

definition quiet_ec2 :: ec2 where
  "quiet_ec2 =
     \<lparr>ec2_get_all_images = (\<lambda>h n. Inr []),
      ec2_get_image = (\<lambda>h i. Inr None),
      ec2_create_image = (\<lambda>h a. Inr ''ami-c''),
      ec2_register_image = (\<lambda>h a. Inr ''ami-r''),
      ec2_deregister_image = (\<lambda>h i d. Inr True),
      ec2_delete_snapshot = (\<lambda>h s. Inr True),
      ec2_create_tags = (\<lambda>h i t. Inr True),
      img_get_launch_permissions = (\<lambda>h i. Inr \<lparr>user_ids = None, group_names = None\<rparr>),
      img_set_launch_permissions = (\<lambda>h i l. Inr True),
      img_remove_launch_permissions = (\<lambda>h i l. Inr True),
      start_time = 0,
      latency = (\<lambda>c. 0)\<rparr>"

text \<open>
  A registry that holds what was made through it: the images of the creation and
  registration calls of the history, by id and name, all of them available at once.
\<close>

fun made :: "call list \<Rightarrow> (string \<times> string option) list" where
  "made [] = []"
| "made (CreateImage a # h) = (''ami-c'', c_name a) # made h"
| "made (RegisterImage a # h) = (''ami-r'', reg_name a) # made h"
| "made (c # h) = made h"

definition store_ec2 :: ec2 where
  "store_ec2 =
     quiet_ec2
       \<lparr>ec2_get_all_images :=
          (\<lambda>h n. Inr (map (\<lambda>(i, m). mk_image i ''available'') (filter (\<lambda>(i, m). m = n) (made h)))),
        ec2_get_image :=
          (\<lambda>h i. Inr (map_option (\<lambda>(i, m). mk_image i ''available'')
                        (find (\<lambda>(j, m). Some j = i) (made h))))\<rparr>"

text \<open>The same registry, refusing tags; refusing launch permissions.\<close>

definition tag_failing_ec2 :: ec2 where
  "tag_failing_ec2 =
     store_ec2\<lparr>ec2_create_tags := (\<lambda>h i t. Inl (EC2ResponseError ''TagLimitExceeded'' ''too many tags''))\<rparr>"

definition permission_failing_ec2 :: ec2 where
  "permission_failing_ec2 =
     store_ec2\<lparr>img_set_launch_permissions :=
       (\<lambda>h i l. Inl (EC2ResponseError ''AuthFailure'' ''not authorized''))\<rparr>"

text \<open>A registry on which the new image does not become visible.\<close>

definition never_visible_ec2 :: ec2 where
  "never_visible_ec2 =
     quiet_ec2\<lparr>ec2_get_image :=
       (\<lambda>h i. Inl (EC2ResponseError ''InvalidAMIID.NotFound'' ''The image id does not exist''))\<rparr>"

text \<open>A registry with the image \<^verbatim>\<open>ami-1\<close>, whose launch permissions are \<open>cur\<close>.\<close>

definition shared_ec2 :: "perms \<Rightarrow> ec2" where
  "shared_ec2 cur =
     quiet_ec2
       \<lparr>ec2_get_image := (\<lambda>h i. Inr (Some (mk_image ''ami-1'' ''available''))),
        img_get_launch_permissions := (\<lambda>h i. Inr cur)\<rparr>"

text \<open>
  A registry on which the two-volume image is gone once it is deregistered, and which
  refuses to delete snapshots.
\<close>

fun is_deregister :: "call \<Rightarrow> bool" where
  "is_deregister (DeregisterImage i d) = True"
| "is_deregister c = False"

definition in_use_ec2 :: ec2 where
  "in_use_ec2 =
     quiet_ec2
       \<lparr>ec2_get_image := (\<lambda>h i. Inr (if list_ex is_deregister h then None else Some two_volume_image)),
        ec2_delete_snapshot :=
          (\<lambda>h s. Inl (EC2ResponseError ''InvalidSnapshot.InUse'' ''The snapshot is currently in use''))\<rparr>"

text \<open>A registry on which the image stays retrievable; the clock starts at 100.\<close>

definition lingering_ec2 :: ec2 where
  "lingering_ec2 =
     quiet_ec2
       \<lparr>ec2_get_image := (\<lambda>h i. Inr (Some (mk_image ''ami-1'' ''available''))),
        start_time := 100\<rparr>"

subsection \<open>Requests\<close>

definition create_request :: params where
  "create_request =
     default_params\<lparr>instance_id := Some ''i-abcd'', name := Some ''newtest'', wait_timeout := 3\<rparr>"

definition waiting_request :: params where
  "waiting_request = create_request\<lparr>wait := True\<rparr>"

definition both_ids_request :: params where
  "both_ids_request = create_request\<lparr>snapshot_id := Some ''snap-1234''\<rparr>"

definition tagged_request :: params where
  "tagged_request = create_request\<lparr>tags := Some [(''Name'', ''newtest'')]\<rparr>"

definition permitted_request :: params where
  "permitted_request =
     create_request
       \<lparr>launch_permissions := Some \<lparr>user_ids = Some [PStr ''123456789012''], group_names = None\<rparr>\<rparr>"

text \<open>The history of \<open>create_request\<close> run against \<open>store_ec2\<close>.\<close>

definition first_run_history :: "call list" where
  "first_run_history =
     [GetAllImages (Some ''newtest''),
      CreateImage \<lparr>c_instance_id = Some ''i-abcd'', c_name = Some ''newtest'',
        c_description = [], c_no_reboot = False, c_block_device_mapping = None\<rparr>,
      GetImage (Some ''ami-c''), Sleep 1]"

definition sda1 :: device where
  "sda1 = \<lparr>device_name = Some ''/dev/sda1'', dev_volume_type = Some ''gp2'', dev_size = Some 8,
           dev_delete_on_termination = Some True, dev_no_device = None, dev_snapshot_id = None,
           dev_iops = None\<rparr>"

definition no_source_request :: params where
  "no_source_request =
     default_params
       \<lparr>action := ''register'', virtualization_type := Some ''hvm'', name := Some ''nat-server''\<rparr>"

definition mapping_only_request :: params where
  "mapping_only_request = no_source_request\<lparr>device_mapping := Some [sda1]\<rparr>"

definition both_sources_request :: params where
  "both_sources_request = mapping_only_request\<lparr>snapshot_id := Some ''snap-1234''\<rparr>"

definition mapping_and_instance_request :: params where
  "mapping_and_instance_request =
     mapping_only_request\<lparr>instance_id := Some ''i-abcd'', wait_timeout := 3\<rparr>"

definition absent_request :: params where
  "absent_request = default_params\<lparr>state := ''absent'', image_id := Some ''ami-1''\<rparr>"

definition purge_request :: params where
  "purge_request = absent_request\<lparr>delete_snapshot := True\<rparr>"

definition patient_request :: params where
  "patient_request = absent_request\<lparr>wait := True, wait_timeout := 7\<rparr>"

text \<open>One round of the waiting loop for \<^verbatim>\<open>ami-1\<close>.\<close>

definition round3 :: "call list" where
  "round3 = [GetImage (Some ''ami-1''), Sleep 3]"

definition update_request :: params where
  "update_request =
     default_params
       \<lparr>image_id := Some ''ami-1'',
        launch_permissions := Some \<lparr>user_ids = Some [PInt 111], group_names = Some []\<rparr>\<rparr>"

section \<open>Properties\<close>

lemmas run_defs =
  main_def create_image_def request_image_def device_mapping_of_def issue_calls_def poll_and_finish_def
  after_poll_def apply_tags_def apply_permissions_def get_ami_info_def
  get_block_device_mapping_def create_params_def register_params_def
  deregister_image_def wait_and_finish_def finish_deregister_def update_image_def
  register_checks_def wants_update_def str_user_ids_def has_any_def perms_truthy_def truthy_def
  on_exn_def code_msg_def fmt_s_def time_time_def not_found_msg_def complete_msg_def

lemmas fixture_defs =
  mk_image_def mk_info_def volume_def two_volume_image_def
  quiet_ec2_def store_ec2_def tag_failing_ec2_def permission_failing_ec2_def
  never_visible_ec2_def shared_ec2_def in_use_ec2_def lingering_ec2_def
  default_params_def create_request_def waiting_request_def both_ids_request_def
  tagged_request_def permitted_request_def sda1_def no_source_request_def
  mapping_only_request_def both_sources_request_def mapping_and_instance_request_def
  absent_request_def purge_request_def patient_request_def update_request_def

lemma upt_3: "[0..<3] = [0, 1, 2]"
  by (simp add: numeral_3_eq_3)

section \<open>Properties of main\<close>

subsection \<open>Validation of a register request\<close>

text \<open>
  C7. A register-mode request is one that \<^verbatim>\<open>main\<close> treats as such: \<^verbatim>\<open>state\<close> is
  \<^verbatim>\<open>present\<close>, it is not a permission update (line 643), and \<^verbatim>\<open>action\<close> is
  \<^verbatim>\<open>register\<close>. When \<^verbatim>\<open>snapshot_id\<close> and \<^verbatim>\<open>device_mapping\<close> are both given, or
  neither is, \<^verbatim>\<open>main\<close> ends in \<^verbatim>\<open>fail_json\<close> with the history unchanged: no lookup,
  create or register call, nor any other, was made. The message is the one of lines
  665 or 670, unless the check of \<^verbatim>\<open>virtualization_type\<close>, which comes first, has
  already failed.
\<close>

theorem register_source_validation:
  assumes "state p = ''present''" and "action p = ''register''"
    and "\<not> wants_update p"
    and "truthy (snapshot_id p) = truthy (device_mapping p)"
  shows "main ec2 p h =
           (Fail_json (kw
              (if \<not> truthy (virtualization_type p)
                 then ''virtualization_type is required for new image''
               else if virtualization_type p \<notin> set [Some ''paravirtual'', Some ''hvm'']
                 then ''virtualization_type must be either paravirtual or hvm''
               else if truthy (snapshot_id p)
                 then ''device_mapping is mutually exclusive with snapshot_id''
               else ''either snapshot_id or device_mapping is required for new image'')), h)"
  using assms by (simp add: main_def register_checks_def)

text \<open>A request with both sources and a request with none.\<close>

theorem register_source_validation_witness:
  "main quiet_ec2 both_sources_request [] =
     (Fail_json (kw ''device_mapping is mutually exclusive with snapshot_id''), []) \<and>
   main quiet_ec2 no_source_request [] =
     (Fail_json (kw ''either snapshot_id or device_mapping is required for new image''), [])"
proof -
  have b: "state both_sources_request = ''present''" "action both_sources_request = ''register''"
    "\<not> wants_update both_sources_request"
    "truthy (snapshot_id both_sources_request) = truthy (device_mapping both_sources_request)"
    by (simp_all add: fixture_defs truthy_def wants_update_def)
  have n: "state no_source_request = ''present''" "action no_source_request = ''register''"
    "\<not> wants_update no_source_request"
    "truthy (snapshot_id no_source_request) = truthy (device_mapping no_source_request)"
    by (simp_all add: fixture_defs truthy_def wants_update_def)
  from register_source_validation [OF b, of quiet_ec2 "[]"]
    register_source_validation [OF n, of quiet_ec2 "[]"]
  show ?thesis
    by (simp add: fixture_defs truthy_def)
qed

subsection \<open>Requests that reach create_image\<close>

text \<open>
  A request with \<^verbatim>\<open>state=present\<close> that is not a permission update and passes the
  checks of lines 647-685 is handed to \<^verbatim>\<open>create_image\<close>.
\<close>

lemma main_runs_create_image:
  assumes "state p = ''present''" and "\<not> wants_update p"
    and "action p = ''create'' \<and> truthy (instance_id p) \<or>
         action p = ''register'' \<and> register_checks p = None"
    and "truthy (name p)"
  shows "main ec2 p h = create_image ec2 p h"
  using assms by (auto simp: main_def)

section \<open>Properties of create_image\<close>

subsection \<open>An image of that name exists\<close>

text \<open>
  C4. When the lookup by name (line 455) returns at least one image, \<^verbatim>\<open>create_image\<close>
  ends at line 458 with that image's id and state and \<^verbatim>\<open>changed=False\<close>; the lookup is
  the only call it made, so no create, register, tag or permission call is issued. The
  registry is the collaborator's: "the image exists" is the hypothesis that the lookup
  returns it at the history where the call starts, which is how a second invocation
  after a first one finds it.
\<close>

theorem existing_name_no_change:
  assumes "ec2_get_all_images ec2 h (name p) = Inr (i # rest)"
    and "img_id i = Some iid"
  shows "create_image ec2 p h =
           (Exit_json ((kw ''AMI name already present'')
              \<lparr>r_image_id := Some iid, r_state := Some (img_state i), changed := Some False\<rparr>),
            h @ [GetAllImages (name p)])"
  using assms by (simp add: create_image_def request_image_def)

text \<open>
  Two invocations in a row against a registry that keeps what is created: the first one
  creates the image, the second one starts from the first one's history and changes
  nothing.
\<close>

theorem existing_name_no_change_witness:
  "create_image store_ec2 create_request [] =
     (Exit_json ((kw ''AMI creation operation complete'')
        \<lparr>changed := Some True, r_image_id := Some ''ami-c'', r_state := Some ''available'',
         r_ami_info := Some (mk_info ''ami-c'' ''available'')\<rparr>),
      first_run_history) \<and>
   ec2_get_all_images store_ec2 first_run_history (name create_request) =
     Inr [mk_image ''ami-c'' ''available''] \<and>
   create_image store_ec2 create_request first_run_history =
     (Exit_json ((kw ''AMI name already present'')
        \<lparr>r_image_id := Some ''ami-c'', r_state := Some ''available'', changed := Some False\<rparr>),
      first_run_history @ [GetAllImages (Some ''newtest'')])"
proof -
  have run1: "create_image store_ec2 create_request [] =
     (Exit_json ((kw ''AMI creation operation complete'')
        \<lparr>changed := Some True, r_image_id := Some ''ami-c'', r_state := Some ''available'',
         r_ami_info := Some (mk_info ''ami-c'' ''available'')\<rparr>),
      first_run_history)"
    by (simp add: run_defs fixture_defs first_run_history_def upt_3)
  have look: "ec2_get_all_images store_ec2 first_run_history (name create_request) =
     Inr (mk_image ''ami-c'' ''available'' # [])"
    by (simp add: fixture_defs first_run_history_def)
  have ident: "img_id (mk_image ''ami-c'' ''available'') = Some ''ami-c''"
    by (simp add: mk_image_def)
  from existing_name_no_change [OF look ident] run1 look show ?thesis
    by (simp add: create_request_def default_params_def mk_image_def)
qed

subsection \<open>A register request with a device mapping and no snapshot\<close>

lemma range_pos: "0 < wt \<Longrightarrow> [0..<nat wt] = 0 # [1..<nat wt]"
  by (simp add: upt_conv_Cons)

text \<open>The mapping is built when every entry has a device name.\<close>

lemma build_bdm_named:
  "list_all (\<lambda>d. device_name d \<noteq> None) ds \<Longrightarrow> \<exists>bdm. build_bdm ds acc = Some bdm"
  by (induction ds arbitrary: acc) auto

lemma device_mapping_of_named:
  assumes "device_mapping p = Some ds" and "list_all (\<lambda>d. device_name d \<noteq> None) ds"
  shows "device_mapping_of p \<noteq> None"
  using assms build_bdm_named [of ds "[]"] by (auto simp: device_mapping_of_def)

text \<open>
  C3, as the code has it. \<^verbatim>\<open>create_image\<close> chooses its calls by \<^verbatim>\<open>instance_id\<close>
  (line 472) and \<^verbatim>\<open>snapshot_id\<close> (line 474), so the claim holds for the requests that
  give neither: a register request with a device mapping, accepted by the checks of
  \<^verbatim>\<open>main\<close>, with no \<^verbatim>\<open>snapshot_id\<close> and no \<^verbatim>\<open>instance_id\<close>, whose name no existing
  image has and whose mapping entries all have a device name (\<open>device_mapping_of\<close>
  is not \<open>None\<close>). Then the history holds the
  lookup by name and no creation or registration call, \<^verbatim>\<open>image_id\<close> is never assigned,
  and the run ends with an uncaught \<^verbatim>\<open>UnboundLocalError\<close>: on \<^verbatim>\<open>image_id\<close> in the first
  round of the polling loop (line 485; the \<^verbatim>\<open>finally\<close> clause still sleeps) when
  \<^verbatim>\<open>wait_timeout\<close> is positive, on \<^verbatim>\<open>img\<close> after the loop (line 495) when it is not.
\<close>

theorem mapping_only_unbound:
  assumes "state p = ''present''" and "action p = ''register''" and "\<not> wants_update p"
    and "register_checks p = None" and "truthy (name p)"
    and "truthy (device_mapping p)" and "\<not> truthy (snapshot_id p)" and "\<not> truthy (instance_id p)"
    and "ec2_get_all_images ec2 h (name p) = Inr []"
    and "device_mapping_of p \<noteq> None"
  shows "main ec2 p h =
           (if 0 < wait_timeout p
            then (Uncaught (UnboundLocalError ''image_id''), h @ [GetAllImages (name p), Sleep 1])
            else (Uncaught (UnboundLocalError ''img''), h @ [GetAllImages (name p)]))"
proof -
  from assms have m: "main ec2 p h = create_image ec2 p h"
    by (simp add: main_def)
  from assms obtain bdm where b: "device_mapping_of p = Some bdm"
    by auto
  from assms b have r: "request_image ec2 p h = (Inr Unbound, h @ [GetAllImages (name p)])"
    by (simp add: request_image_def issue_calls_def)
  show ?thesis
  proof (cases "0 < wait_timeout p")
    case True
    with m r show ?thesis
      by (simp add: create_image_def poll_and_finish_def range_pos)
  next
    case False
    with m r show ?thesis
      by (simp add: create_image_def poll_and_finish_def after_poll_def)
  qed
qed

theorem mapping_only_unbound_witness:
  "register_checks mapping_only_request = None \<and>
   truthy (device_mapping mapping_only_request) \<and>
   main quiet_ec2 mapping_only_request [] =
     (Uncaught (UnboundLocalError ''image_id''), [GetAllImages (Some ''nat-server''), Sleep 1]) \<and>
   main quiet_ec2 (mapping_only_request\<lparr>wait_timeout := 0\<rparr>) [] =
     (Uncaught (UnboundLocalError ''img''), [GetAllImages (Some ''nat-server'')])"
proof -
  have a: "state (mapping_only_request\<lparr>wait_timeout := t\<rparr>) = ''present''"
    "action (mapping_only_request\<lparr>wait_timeout := t\<rparr>) = ''register''"
    "\<not> wants_update (mapping_only_request\<lparr>wait_timeout := t\<rparr>)"
    "register_checks (mapping_only_request\<lparr>wait_timeout := t\<rparr>) = None"
    "truthy (name (mapping_only_request\<lparr>wait_timeout := t\<rparr>))"
    "truthy (device_mapping (mapping_only_request\<lparr>wait_timeout := t\<rparr>))"
    "\<not> truthy (snapshot_id (mapping_only_request\<lparr>wait_timeout := t\<rparr>))"
    "\<not> truthy (instance_id (mapping_only_request\<lparr>wait_timeout := t\<rparr>))"
    "ec2_get_all_images quiet_ec2 [] (name (mapping_only_request\<lparr>wait_timeout := t\<rparr>)) = Inr []"
    "device_mapping_of (mapping_only_request\<lparr>wait_timeout := t\<rparr>) \<noteq> None" for t
    by (simp_all add: fixture_defs wants_update_def truthy_def register_checks_def
        device_mapping_of_def)
  from mapping_only_unbound [OF a, of 900] mapping_only_unbound [OF a, of 0] a(4) [of 900] a(6) [of 900]
  show ?thesis
    by (simp add: fixture_defs)
qed

text \<open>
  The claim as stated fails on a register request with a device mapping, no
  \<^verbatim>\<open>snapshot_id\<close> and an \<^verbatim>\<open>instance_id\<close>, which the checks of \<^verbatim>\<open>main\<close> accept: the
  creation call is issued and the run ends well.
\<close>

theorem mapping_and_instance_counterexample:
  "state mapping_and_instance_request = ''present'' \<and>
   action mapping_and_instance_request = ''register'' \<and>
   truthy (device_mapping mapping_and_instance_request) \<and>
   \<not> truthy (snapshot_id mapping_and_instance_request) \<and>
   register_checks mapping_and_instance_request = None \<and>
   main store_ec2 mapping_and_instance_request [] =
     (Exit_json ((kw ''AMI creation operation complete'')
        \<lparr>changed := Some True, r_image_id := Some ''ami-c'', r_state := Some ''available'',
         r_ami_info := Some (mk_info ''ami-c'' ''available'')\<rparr>),
      [GetAllImages (Some ''nat-server''),
       CreateImage (create_params mapping_and_instance_request
         (Some [(''/dev/sda1'', sda1\<lparr>device_name := None\<rparr>)])),
       GetImage (Some ''ami-c''), Sleep 1])"
  by (simp add: run_defs fixture_defs upt_3)

subsection \<open>Both an instance and a snapshot\<close>

lemma poll_trace:
  "poll ec2 w wt (Bound i) js img h = (r, h') \<Longrightarrow> \<exists>t. h' = h @ t \<and> list_all (on_image i) t"
proof (induction js arbitrary: img h)
  case Nil
  then show ?case by simp
next
  case (Cons j js)
  let ?h1 = "h @ [GetImage (Some i), Sleep 1]"
  have ext: "\<exists>t. h' = h @ t \<and> list_all (on_image i) t"
    if "poll ec2 w wt (Bound i) js img' ?h1 = (r, h')" for img'
  proof -
    from Cons.IH [OF that] obtain t where "h' = ?h1 @ t" and "list_all (on_image i) t"
      by blast
    then have "h' = h @ ([GetImage (Some i), Sleep 1] @ t)"
      and "list_all (on_image i) ([GetImage (Some i), Sleep 1] @ t)"
      by simp_all
    then show ?thesis by blast
  qed
  have stop: "\<exists>t. h' = h @ t \<and> list_all (on_image i) t" if "h' = ?h1"
  proof -
    from that have "h' = h @ [GetImage (Some i), Sleep 1]"
      and "list_all (on_image i) [GetImage (Some i), Sleep 1]"
      by simp_all
    then show ?thesis by blast
  qed
  from Cons.prems show ?case
    by (auto simp: Let_def simp del: One_nat_def split: sum.splits option.splits if_splits
        intro: ext stop)
qed

lemma apply_tags_trace:
  "apply_tags ec2 p (Bound i) h = (r, h') \<Longrightarrow> \<exists>t. h' = h @ t \<and> list_all (on_image i) t"
  by (auto simp: apply_tags_def split: option.splits if_splits sum.splits)

lemma apply_permissions_trace:
  "apply_permissions ec2 p (Bound i) im h = (r, h') \<Longrightarrow> \<exists>t. h' = h @ t \<and> list_all (on_image i) t"
  by (auto simp: apply_permissions_def Let_def split: option.splits if_splits sum.splits)

lemma after_poll_trace:
  assumes "after_poll ec2 p (Bound i) img h = (r, h')"
  shows "\<exists>t. h' = h @ t \<and> list_all (on_image i) t"
proof -
  have two: "\<exists>t. h' = h @ t \<and> list_all (on_image i) t"
    if "apply_tags ec2 p (Bound i) h = (a, h1)"
      and "apply_permissions ec2 p (Bound i) im h1 = (b, h')" for a h1 im b
  proof -
    from apply_tags_trace [OF that(1)] obtain t1 where "h1 = h @ t1" and "list_all (on_image i) t1"
      by blast
    moreover from apply_permissions_trace [OF that(2)] obtain t2
      where "h' = h1 @ t2" and "list_all (on_image i) t2"
      by blast
    ultimately have "h' = h @ (t1 @ t2)" and "list_all (on_image i) (t1 @ t2)"
      by simp_all
    then show ?thesis by blast
  qed
  from assms show ?thesis
    by (auto simp: after_poll_def split: var.splits if_splits prod.splits option.splits sum.splits
        dest: apply_tags_trace two)
qed

lemma poll_and_finish_trace:
  assumes "poll_and_finish ec2 p (Bound i) h = (r, h')"
  shows "\<exists>t. h' = h @ t \<and> list_all (on_image i) t"
proof (cases "poll ec2 (wait p) (wait_timeout p) (Bound i) [0..<nat (wait_timeout p)] Unbound h")
  case (Pair a h1)
  from poll_trace [OF Pair] obtain t1 where t1: "h1 = h @ t1" "list_all (on_image i) t1"
    by blast
  show ?thesis
  proof (cases a)
    case (Inl out)
    with assms Pair t1 show ?thesis
      by (auto simp: poll_and_finish_def)
  next
    case (Inr img)
    with assms Pair have "after_poll ec2 p (Bound i) img h1 = (r, h')"
      by (simp add: poll_and_finish_def)
    from after_poll_trace [OF this] obtain t2 where "h' = h1 @ t2" and "list_all (on_image i) t2"
      by blast
    with t1 have "h' = h @ (t1 @ t2)" and "list_all (on_image i) (t1 @ t2)"
      by simp_all
    then show ?thesis by blast
  qed
qed

lemma params_ignore_action:
  "create_params (p\<lparr>action := a\<rparr>) bdm = create_params p bdm"
  "register_params (p\<lparr>action := a\<rparr>) bdm = register_params p bdm"
  "device_mapping_of (p\<lparr>action := a\<rparr>) = device_mapping_of p"
  by (simp_all add: create_params_def register_params_def device_mapping_of_def)

lemma issue_calls_ignores_action:
  "issue_calls ec2 (p\<lparr>action := a\<rparr>) bdm h = issue_calls ec2 p bdm h"
  by (simp add: issue_calls_def params_ignore_action
      cong: sum.case_cong prod.case_cong if_cong)

lemma apply_tags_ignores_action:
  "apply_tags ec2 (p\<lparr>action := a\<rparr>) iv h = apply_tags ec2 p iv h"
  by (simp add: apply_tags_def cong: option.case_cong if_cong)

lemma apply_permissions_ignores_action:
  "apply_permissions ec2 (p\<lparr>action := a\<rparr>) iv im h = apply_permissions ec2 p iv im h"
  by (simp add: apply_permissions_def cong: option.case_cong if_cong)

lemmas action_unused =
  params_ignore_action issue_calls_ignores_action apply_tags_ignores_action
  apply_permissions_ignores_action

lemma create_image_ignores_action: "create_image ec2 (p\<lparr>action := a\<rparr>) h = create_image ec2 p h"
  by (simp add: create_image_def request_image_def poll_and_finish_def after_poll_def action_unused
      cong: sum.case_cong prod.case_cong option.case_cong list.case_cong var.case_cong if_cong)

text \<open>
  C10. A request with \<^verbatim>\<open>action=create\<close> that passes the checks of \<^verbatim>\<open>main\<close>
  (\<^verbatim>\<open>instance_id\<close> and \<^verbatim>\<open>name\<close> given) and also gives \<^verbatim>\<open>snapshot_id\<close>, with no
  image of that name yet and both calls answered with an id. Then \<^verbatim>\<open>main\<close> issues the
  creation call and then the registration call, and all that follows (lines 483-510)
  runs with \<^verbatim>\<open>image_id\<close> bound to the id that the registration returned: every fetch
  and every tagging call after it carries that id, and permissions are set on the image
  fetched by it. \<^verbatim>\<open>create_image\<close> does not read \<^verbatim>\<open>action\<close>: changing it changes
  nothing.
\<close>

theorem both_ids_both_calls:
  assumes "state p = ''present''" and "action p = ''create''" and "\<not> wants_update p"
    and "truthy (instance_id p)" and "truthy (name p)" and "truthy (snapshot_id p)"
    and "ec2_get_all_images ec2 h (name p) = Inr []"
    and "device_mapping_of p = Some bdm"
    and "ec2_create_image ec2 (h @ [GetAllImages (name p)]) (create_params p bdm) = Inr cid"
    and "ec2_register_image ec2 (h @ [GetAllImages (name p), CreateImage (create_params p bdm)])
           (register_params p bdm) = Inr rid"
  shows "let h3 = h @ [GetAllImages (name p), CreateImage (create_params p bdm),
                       RegisterImage (register_params p bdm)]
         in main ec2 p h = poll_and_finish ec2 p (Bound rid) h3 \<and>
            (\<exists>t. snd (main ec2 p h) = h3 @ t \<and> list_all (on_image rid) t) \<and>
            (\<forall>a. create_image ec2 (p\<lparr>action := a\<rparr>) h = create_image ec2 p h)"
proof -
  let ?h3 = "h @ [GetAllImages (name p), CreateImage (create_params p bdm),
                  RegisterImage (register_params p bdm)]"
  from assms have m: "main ec2 p h = create_image ec2 p h"
    by (simp add: main_def)
  from assms have r: "request_image ec2 p h = (Inr (Bound rid), ?h3)"
    by (simp add: request_image_def issue_calls_def)
  from m r have run: "main ec2 p h = poll_and_finish ec2 p (Bound rid) ?h3"
    by (simp add: create_image_def)
  obtain out h' where o: "poll_and_finish ec2 p (Bound rid) ?h3 = (out, h')"
    by (cases "poll_and_finish ec2 p (Bound rid) ?h3")
  from poll_and_finish_trace [OF o] run o
  have "\<exists>t. snd (main ec2 p h) = ?h3 @ t \<and> list_all (on_image rid) t"
    by simp
  with run show ?thesis
    by (simp add: Let_def create_image_ignores_action)
qed

theorem both_ids_both_calls_witness:
  "main store_ec2 both_ids_request [] =
     (Exit_json ((kw ''AMI creation operation complete'')
        \<lparr>changed := Some True, r_image_id := Some ''ami-r'', r_state := Some ''available'',
         r_ami_info := Some (mk_info ''ami-r'' ''available'')\<rparr>),
      [GetAllImages (Some ''newtest''),
       CreateImage (create_params both_ids_request None),
       RegisterImage (register_params both_ids_request None),
       GetImage (Some ''ami-r''), Sleep 1])"
proof -
  have a: "state both_ids_request = ''present''" "action both_ids_request = ''create''"
    "\<not> wants_update both_ids_request" "truthy (instance_id both_ids_request)"
    "truthy (name both_ids_request)" "truthy (snapshot_id both_ids_request)"
    "ec2_get_all_images store_ec2 [] (name both_ids_request) = Inr []"
    "device_mapping_of both_ids_request = Some None"
    "ec2_create_image store_ec2 ([] @ [GetAllImages (name both_ids_request)])
       (create_params both_ids_request None) = Inr ''ami-c''"
    "ec2_register_image store_ec2
       ([] @ [GetAllImages (name both_ids_request), CreateImage (create_params both_ids_request None)])
       (register_params both_ids_request None) = Inr ''ami-r''"
    by (simp_all add: fixture_defs wants_update_def truthy_def device_mapping_of_def)
  have "poll_and_finish store_ec2 both_ids_request (Bound ''ami-r'')
          [GetAllImages (name both_ids_request), CreateImage (create_params both_ids_request None),
           RegisterImage (register_params both_ids_request None)] =
        (Exit_json ((kw ''AMI creation operation complete'')
           \<lparr>changed := Some True, r_image_id := Some ''ami-r'', r_state := Some ''available'',
            r_ami_info := Some (mk_info ''ami-r'' ''available'')\<rparr>),
         [GetAllImages (Some ''newtest''),
          CreateImage (create_params both_ids_request None),
          RegisterImage (register_params both_ids_request None),
          GetImage (Some ''ami-r''), Sleep 1])"
    by (simp add: run_defs fixture_defs upt_3)
  with both_ids_both_calls [OF a] show ?thesis
    by (simp add: Let_def)
qed

subsection \<open>The polling loop of create_image\<close>

text \<open>
  What holds of the loop of lines 483-493 for every connection: a round is one fetch by
  the image id followed by a sleep of one second, there are at most as many rounds as
  values of \<open>i\<close>, the loop stops at the first round that fetches an image in state
  \<^verbatim>\<open>available\<close>, and goes on after a round that fetches another state. After the loop,
  a last fetched image in another state makes the run fail with the message of line 496.
\<close>

lemma poll_step:
  "poll ec2 w wt (Bound i) (j # js) img h = (r, h') \<Longrightarrow>
     h' = h @ [GetImage (Some i), Sleep 1] \<or>
     (\<exists>img'. poll ec2 w wt (Bound i) js img' (h @ [GetImage (Some i), Sleep 1]) = (r, h'))"
  by (auto simp: Let_def simp del: One_nat_def split: sum.splits option.splits if_splits)

lemma poll_rounds:
  "poll ec2 w wt (Bound i) js img h = (r, h') \<Longrightarrow>
     \<exists>n\<le>length js. h' = h @ concat (replicate n [GetImage (Some i), Sleep 1])"
proof (induction js arbitrary: img h)
  case Nil
  then show ?case by simp
next
  case (Cons j js)
  let ?round = "[GetImage (Some i), Sleep 1]"
  from poll_step [OF Cons.prems] show ?case
  proof
    assume "h' = h @ ?round"
    then have "Suc 0 \<le> length (j # js)" and "h' = h @ concat (replicate (Suc 0) ?round)"
      by simp_all
    then show ?thesis by blast
  next
    assume "\<exists>img'. poll ec2 w wt (Bound i) js img' (h @ ?round) = (r, h')"
    then obtain img' where "poll ec2 w wt (Bound i) js img' (h @ ?round) = (r, h')"
      by blast
    from Cons.IH [OF this] obtain n where "n \<le> length js"
      and "h' = (h @ ?round) @ concat (replicate n ?round)"
      by blast
    then have "Suc n \<le> length (j # js)" and "h' = h @ concat (replicate (Suc n) ?round)"
      by simp_all
    then show ?thesis by blast
  qed
qed

lemma poll_stops_when_available:
  assumes "ec2_get_image ec2 h (Some i) = Inr (Some im)" and "img_state im = ''available''"
  shows "poll ec2 w wt (Bound i) (j # js) img h = (Inr (Bound im), h @ [GetImage (Some i), Sleep 1])"
  using assms by simp

lemma poll_goes_on_when_not_available:
  assumes "ec2_get_image ec2 h (Some i) = Inr (Some im)" and "img_state im \<noteq> ''available''"
  shows "poll ec2 w wt (Bound i) (j # js) img h =
           poll ec2 w wt (Bound i) js (Bound im) (h @ [GetImage (Some i), Sleep 1])"
  using assms by simp

lemma after_poll_not_available:
  "img_state im \<noteq> ''available'' \<Longrightarrow>
     after_poll ec2 p iv (Bound im) h = (Fail_json (kw not_found_msg), h)"
  by (simp add: after_poll_def)

text \<open>
  Where no fetch assigns \<^verbatim>\<open>img\<close>, line 495 reads an unbound name: when every fetch
  raises \<^verbatim>\<open>InvalidAMIID.NotFound\<close>, whatever \<^verbatim>\<open>wait\<close> and \<^verbatim>\<open>wait_timeout\<close> are, and
  when \<^verbatim>\<open>wait_timeout\<close> allows no round at all.
\<close>

lemma py_in_self: "py_in s s"
  by (cases s) simp_all

lemma poll_never_found:
  assumes "\<And>h. \<exists>m. ec2_get_image ec2 h (Some i) = Inl (EC2ResponseError ''InvalidAMIID.NotFound'' m)"
  shows "\<exists>h'. poll ec2 w wt (Bound i) js img h = (Inr img, h')"
proof (induction js arbitrary: h)
  case Nil
  show ?case by simp
next
  case (Cons j js)
  from assms obtain m
    where "ec2_get_image ec2 h (Some i) = Inl (EC2ResponseError ''InvalidAMIID.NotFound'' m)"
    by blast
  then have "poll ec2 w wt (Bound i) (j # js) img h =
      poll ec2 w wt (Bound i) js img (h @ [GetImage (Some i), Sleep 1])"
    by (simp add: py_in_self)
  with Cons.IH [of "h @ [GetImage (Some i), Sleep 1]"] show ?case
    by simp
qed

lemma never_found_unbound:
  assumes "\<And>h. \<exists>m. ec2_get_image ec2 h (Some i) = Inl (EC2ResponseError ''InvalidAMIID.NotFound'' m)"
  shows "\<exists>h'. poll_and_finish ec2 p (Bound i) h = (Uncaught (UnboundLocalError ''img''), h')"
proof -
  from poll_never_found [OF assms] obtain h'
    where "poll ec2 (wait p) (wait_timeout p) (Bound i) [0..<nat (wait_timeout p)] Unbound h =
      (Inr Unbound, h')"
    by blast
  then have "poll_and_finish ec2 p (Bound i) h = (Uncaught (UnboundLocalError ''img''), h')"
    by (simp add: poll_and_finish_def after_poll_def)
  then show ?thesis ..
qed

lemma no_rounds_unbound:
  "wait_timeout p \<le> 0 \<Longrightarrow>
     poll_and_finish ec2 p iv h = (Uncaught (UnboundLocalError ''img''), h)"
  by (simp add: poll_and_finish_def after_poll_def)

text \<open>
  C6 at an input where the code departs from it. The image is created; every fetch then
  raises \<^verbatim>\<open>InvalidAMIID.NotFound\<close>, which the handler of line 489 passes over (with
  \<^verbatim>\<open>wait=yes\<close> too, since the code is one of the two it exempts). The loop completes
  its three rounds without having assigned \<^verbatim>\<open>img\<close>, and line 495 reads it: the run
  ends with an uncaught \<^verbatim>\<open>UnboundLocalError\<close>, not with the \<^verbatim>\<open>fail_json\<close> of line 496.
\<close>

theorem never_visible_unbound_img:
  "main never_visible_ec2 waiting_request [] =
     (Uncaught (UnboundLocalError ''img''),
      [GetAllImages (Some ''newtest''), CreateImage (create_params waiting_request None),
       GetImage (Some ''ami-c''), Sleep 1, GetImage (Some ''ami-c''), Sleep 1,
       GetImage (Some ''ami-c''), Sleep 1])"
  by (simp add: run_defs fixture_defs upt_3)

subsection \<open>Failures after the image is available\<close>

text \<open>
  C9. The image is requested (\<^verbatim>\<open>image_id\<close> is bound to \<open>iid\<close>) and the polling loop
  has ended on a fetched image in state \<^verbatim>\<open>available\<close>. If \<^verbatim>\<open>tags\<close> are requested
  and the tagging call raises, the run ends there: with \<^verbatim>\<open>fail_json\<close> and the message
  "Image tagging failed => code: message" for an \<^verbatim>\<open>EC2ResponseError\<close>, with the uncaught
  exception otherwise; the tagging call is the last call of the history, so nothing
  deregisters the image. If tagging did not end the run, launch permissions are
  requested and \<^verbatim>\<open>set_launch_permissions\<close> raises a server error, the run ends with
  \<^verbatim>\<open>fail_json\<close>, the message "code: message" and \<^verbatim>\<open>image_id\<close> set to \<open>iid\<close>.
\<close>

theorem tag_and_permission_failures:
  assumes "request_image ec2 p h = (Inr (Bound iid), h1)"
    and "poll ec2 (wait p) (wait_timeout p) (Bound iid) [0..<nat (wait_timeout p)] Unbound h1 =
           (Inr (Bound im), h2)"
    and "img_state im = ''available''"
  shows "(\<forall>ts e. tags p = Some ts \<and> ts \<noteq> [] \<and> ec2_create_tags ec2 h2 iid ts = Inl e \<longrightarrow>
            create_image ec2 p h =
              (case ec2_response_error e of
                 Some (c, m) \<Rightarrow> Fail_json (kw (''Image tagging failed => '' @ code_msg c m))
               | None \<Rightarrow> Uncaught (Remote e),
               h2 @ [CreateTags iid ts])) \<and>
         (\<forall>h3 lp im2 e c m.
            apply_tags ec2 p (Bound iid) h2 = (None, h3) \<and>
            launch_permissions p = Some lp \<and> perms_truthy lp \<and>
            ec2_get_image ec2 h3 (Some iid) = Inr (Some im2) \<and>
            img_set_launch_permissions ec2 (h3 @ [GetImage (Some iid)]) (img_id im2) lp = Inl e \<and>
            server_error e = Some (c, m) \<longrightarrow>
            create_image ec2 p h =
              (Fail_json ((kw (code_msg c m))\<lparr>r_image_id := Some iid\<rparr>),
               h3 @ [GetImage (Some iid), SetLaunchPermissions (img_id im2) lp]))"
proof -
  from assms have run: "create_image ec2 p h = after_poll ec2 p (Bound iid) (Bound im) h2"
    by (simp add: create_image_def poll_and_finish_def)
  have tagging: "after_poll ec2 p (Bound iid) (Bound im) h2 =
      (case ec2_response_error e of
         Some (c, m) \<Rightarrow> Fail_json (kw (''Image tagging failed => '' @ code_msg c m))
       | None \<Rightarrow> Uncaught (Remote e),
       h2 @ [CreateTags iid ts])"
    if "tags p = Some ts" and "ts \<noteq> []" and "ec2_create_tags ec2 h2 iid ts = Inl e" for ts e
    using that assms(3) by (simp add: after_poll_def apply_tags_def split: option.splits)
  have permitting: "after_poll ec2 p (Bound iid) (Bound im) h2 =
      (Fail_json ((kw (code_msg c m))\<lparr>r_image_id := Some iid\<rparr>),
       h3 @ [GetImage (Some iid), SetLaunchPermissions (img_id im2) lp])"
    if "apply_tags ec2 p (Bound iid) h2 = (None, h3)" and "launch_permissions p = Some lp"
      and "perms_truthy lp" and "ec2_get_image ec2 h3 (Some iid) = Inr (Some im2)"
      and "img_set_launch_permissions ec2 (h3 @ [GetImage (Some iid)]) (img_id im2) lp = Inl e"
      and "server_error e = Some (c, m)" for h3 lp im2 e c m
    using that assms(3) by (simp add: after_poll_def apply_permissions_def)
  from run tagging permitting show ?thesis
    by simp
qed

text \<open>A creation whose tagging is refused, and one whose permission call is refused.\<close>

theorem tag_and_permission_failures_witness:
  "create_image tag_failing_ec2 tagged_request [] =
     (Fail_json (kw ''Image tagging failed => TagLimitExceeded: too many tags''),
      first_run_history @ [CreateTags ''ami-c'' [(''Name'', ''newtest'')]]) \<and>
   create_image permission_failing_ec2 permitted_request [] =
     (Fail_json ((kw ''AuthFailure: not authorized'')\<lparr>r_image_id := Some ''ami-c''\<rparr>),
      first_run_history @
        [GetImage (Some ''ami-c''),
         SetLaunchPermissions (Some ''ami-c'')
           \<lparr>user_ids = Some [PStr ''123456789012''], group_names = None\<rparr>])"
proof -
  let ?im = "mk_image ''ami-c'' ''available''"
  let ?h1 = "[GetAllImages (Some ''newtest''), CreateImage (create_params create_request None)]"
  have av: "img_state ?im = ''available''"
    by (simp add: mk_image_def)
  have t1: "request_image tag_failing_ec2 tagged_request [] = (Inr (Bound ''ami-c''), ?h1)"
    by (simp add: run_defs fixture_defs)
  have t2: "poll tag_failing_ec2 (wait tagged_request) (wait_timeout tagged_request) (Bound ''ami-c'')
      [0..<nat (wait_timeout tagged_request)] Unbound ?h1 = (Inr (Bound ?im), first_run_history)"
    by (simp add: run_defs fixture_defs first_run_history_def upt_3)
  have t3: "tags tagged_request = Some [(''Name'', ''newtest'')] \<and> [(''Name'', ''newtest'')] \<noteq> [] \<and>
      ec2_create_tags tag_failing_ec2 first_run_history ''ami-c'' [(''Name'', ''newtest'')] =
        Inl (EC2ResponseError ''TagLimitExceeded'' ''too many tags'')"
    by (simp add: fixture_defs)
  have p1: "request_image permission_failing_ec2 permitted_request [] = (Inr (Bound ''ami-c''), ?h1)"
    by (simp add: run_defs fixture_defs)
  have p2: "poll permission_failing_ec2 (wait permitted_request) (wait_timeout permitted_request)
      (Bound ''ami-c'') [0..<nat (wait_timeout permitted_request)] Unbound ?h1 =
      (Inr (Bound ?im), first_run_history)"
    by (simp add: run_defs fixture_defs first_run_history_def upt_3)
  have p3: "apply_tags permission_failing_ec2 permitted_request (Bound ''ami-c'') first_run_history =
        (None, first_run_history) \<and>
      launch_permissions permitted_request =
        Some \<lparr>user_ids = Some [PStr ''123456789012''], group_names = None\<rparr> \<and>
      perms_truthy \<lparr>user_ids = Some [PStr ''123456789012''], group_names = None\<rparr> \<and>
      ec2_get_image permission_failing_ec2 first_run_history (Some ''ami-c'') = Inr (Some ?im) \<and>
      img_set_launch_permissions permission_failing_ec2
        (first_run_history @ [GetImage (Some ''ami-c'')]) (img_id ?im)
        \<lparr>user_ids = Some [PStr ''123456789012''], group_names = None\<rparr> =
        Inl (EC2ResponseError ''AuthFailure'' ''not authorized'') \<and>
      server_error (EC2ResponseError ''AuthFailure'' ''not authorized'') =
        Some (''AuthFailure'', ''not authorized'')"
    by (simp add: run_defs fixture_defs first_run_history_def)
  from tag_and_permission_failures [OF t1 t2 av] t3
  have a: "create_image tag_failing_ec2 tagged_request [] =
     (Fail_json (kw ''Image tagging failed => TagLimitExceeded: too many tags''),
      first_run_history @ [CreateTags ''ami-c'' [(''Name'', ''newtest'')]])"
    by (simp add: code_msg_def)
  from tag_and_permission_failures [OF p1 p2 av] p3
  have b: "create_image permission_failing_ec2 permitted_request [] =
     (Fail_json ((kw ''AuthFailure: not authorized'')\<lparr>r_image_id := Some ''ami-c''\<rparr>),
      first_run_history @
        [GetImage (Some ''ami-c''),
         SetLaunchPermissions (Some ''ami-c'')
           \<lparr>user_ids = Some [PStr ''123456789012''], group_names = None\<rparr>])"
    by (simp add: code_msg_def mk_image_def)
  from a b show ?thesis ..
qed

section \<open>Properties of deregister_image\<close>

subsection \<open>Deregistering an image that does not exist\<close>

text \<open>
  C1, as the code has it. When the fetch of line 523 returns \<^verbatim>\<open>None\<close>, line 525 calls
  \<^verbatim>\<open>module.fail_json\<close>: the run ends as a reported failure, with \<^verbatim>\<open>changed=False\<close> and
  the message "Image ... does not exist". No exception is raised and no call but the fetch
  is made. The claim's "successful, not an error" outcome is not what the code returns.
\<close>

theorem deregister_absent_fails_unchanged:
  assumes "ec2_get_image ec2 h (image_id p) = Inr None"
  shows "deregister_image ec2 p h =
           (Fail_json ((kw (''Image '' @ fmt_s (image_id p) @ '' does not exist''))
              \<lparr>changed := Some False\<rparr>),
            h @ [GetImage (image_id p)])"
  using assms by (simp add: deregister_image_def)

theorem deregister_absent_fails_unchanged_witness:
  "ec2_get_image quiet_ec2 [] (image_id absent_request) = Inr None \<and>
   deregister_image quiet_ec2 absent_request [] =
     (Fail_json ((kw ''Image ami-1 does not exist'')\<lparr>changed := Some False\<rparr>),
      [GetImage (Some ''ami-1'')])"
proof -
  have g: "ec2_get_image quiet_ec2 [] (image_id absent_request) = Inr None"
    by (simp add: quiet_ec2_def)
  from deregister_absent_fails_unchanged [OF g] g show ?thesis
    by (simp add: absent_request_def default_params_def fmt_s_def)
qed

text \<open>
  The claim as stated fails on the request \<^verbatim>\<open>state=absent, image_id=ami-1\<close> against a
  registry that has no such image: the module reports a failure.
\<close>

theorem deregister_absent_counterexample:
  "ec2_get_image quiet_ec2 [] (image_id absent_request) = Inr None \<and>
   reports_failure (fst (main quiet_ec2 absent_request [])) \<and>
   fst (main quiet_ec2 absent_request []) =
     Fail_json ((kw ''Image ami-1 does not exist'')\<lparr>changed := Some False\<rparr>)"
  by (simp add: main_def deregister_image_def quiet_ec2_def absent_request_def
      default_params_def fmt_s_def truthy_def)

subsection \<open>Waiting for the image to be gone\<close>

text \<open>
  The loop of lines 548-550, when it ends without an exception: its condition is false
  at the end; the history grew by a number of rounds, each one fetch followed by a sleep
  of 3 seconds; and every round began before the deadline.
\<close>

lemma wait_until_gone_rounds:
  "wait_until_gone ec2 iid w deadline img h = (Inr img', h') \<Longrightarrow>
     \<not> (w \<and> deadline > time_time ec2 h' \<and> img' \<noteq> None) \<and>
     (\<exists>n. h' = h @ concat (replicate n [GetImage iid, Sleep 3]) \<and>
          (\<forall>k<n. time_time ec2 (h @ concat (replicate k [GetImage iid, Sleep 3])) < deadline))"
proof (induction ec2 iid w deadline img h rule: wait_until_gone.induct)
  case (1 ec2 iid w deadline img h)
  let ?round = "[GetImage iid, Sleep 3]"
  show ?case
  proof (cases "w \<and> deadline > time_time ec2 h \<and> img \<noteq> None")
    case False
    then have "wait_until_gone ec2 iid w deadline img h = (Inr img, h)"
      by (subst wait_until_gone.simps) (simp only: if_False)
    with "1.prems" have "img' = img" and "h' = h"
      by simp_all
    with False have "\<not> (w \<and> deadline > time_time ec2 h' \<and> img' \<noteq> None)"
      and "h' = h @ concat (replicate 0 ?round)"
      by simp_all
    then show ?thesis by blast
  next
    case True
    have "wait_until_gone ec2 iid w deadline img h =
        (case ec2_get_image ec2 h iid of
           Inl e \<Rightarrow> (Inl e, h @ [GetImage iid])
         | Inr img2 \<Rightarrow> wait_until_gone ec2 iid w deadline img2 (h @ ?round))"
      using True by (subst wait_until_gone.simps) simp
    with "1.prems" obtain img2 where fetch: "ec2_get_image ec2 h iid = Inr img2"
      and rest: "wait_until_gone ec2 iid w deadline img2 (h @ ?round) = (Inr img', h')"
      by (cases "ec2_get_image ec2 h iid") auto
    from "1.IH" [OF True fetch rest] obtain n
      where stop: "\<not> (w \<and> deadline > time_time ec2 h' \<and> img' \<noteq> None)"
        and h': "h' = (h @ ?round) @ concat (replicate n ?round)"
        and before: "\<forall>k<n. time_time ec2 ((h @ ?round) @ concat (replicate k ?round)) < deadline"
      by blast
    from h' have shape: "h' = h @ concat (replicate (Suc n) ?round)"
      by simp
    have "time_time ec2 (h @ concat (replicate k ?round)) < deadline" if "k < Suc n" for k
    proof (cases k)
      case 0
      with True show ?thesis by simp
    next
      case (Suc j)
      with that before have "time_time ec2 ((h @ ?round) @ concat (replicate j ?round)) < deadline"
        by simp
      with Suc show ?thesis by simp
    qed
    with stop shape show ?thesis by blast
  qed
qed

text \<open>
  C8. With \<^verbatim>\<open>wait\<close> set, after the image was found, deregistered and fetched again
  (history \<open>h3\<close>), the deadline is the clock at \<open>h3\<close> plus \<^verbatim>\<open>wait_timeout\<close>. The
  waiting loop runs by the clock and not by a count: rounds of one fetch and a sleep of 3
  seconds, each begun before the deadline. When the loop ends with the image still
  retrieved, the deadline has been reached and \<^verbatim>\<open>deregister_image\<close> ends with
  \<^verbatim>\<open>fail_json\<close> "timed out waiting for image to be deregistered/deleted".
\<close>

theorem wait_until_deadline:
  assumes "wait p"
    and "ec2_get_image ec2 h (image_id p) = Inr (Some img)" and "img_id img = Some i"
    and "ec2_deregister_image ec2 (h @ [GetImage (image_id p)]) (image_id p) (delete_snapshot p) = Inr b"
    and "ec2_get_image ec2
           (h @ [GetImage (image_id p), DeregisterImage (image_id p) (delete_snapshot p)])
           (image_id p) = Inr img0"
    and "wait_until_gone ec2 (image_id p) (wait p)
           (time_time ec2 (h @ [GetImage (image_id p), DeregisterImage (image_id p) (delete_snapshot p),
                                GetImage (image_id p)]) + wait_timeout p)
           img0
           (h @ [GetImage (image_id p), DeregisterImage (image_id p) (delete_snapshot p),
                 GetImage (image_id p)]) = (Inr (Some still), h4)"
  shows "let h3 = h @ [GetImage (image_id p), DeregisterImage (image_id p) (delete_snapshot p),
                       GetImage (image_id p)];
             deadline = time_time ec2 h3 + wait_timeout p;
             round = [GetImage (image_id p), Sleep 3]
         in deregister_image ec2 p h =
              (Fail_json (kw ''timed out waiting for image to be deregistered/deleted''), h4) \<and>
            deadline \<le> time_time ec2 h4 \<and>
            (\<exists>n. h4 = h3 @ concat (replicate n round) \<and>
                 (\<forall>k<n. time_time ec2 (h3 @ concat (replicate k round)) < deadline))"
proof -
  let ?h3 = "h @ [GetImage (image_id p), DeregisterImage (image_id p) (delete_snapshot p),
                  GetImage (image_id p)]"
  let ?deadline = "time_time ec2 ?h3 + wait_timeout p"
  let ?round = "[GetImage (image_id p), Sleep 3]"
  from wait_until_gone_rounds [OF assms(6)] assms(1)
  have late: "?deadline \<le> time_time ec2 h4"
    and rounds: "\<exists>n. h4 = ?h3 @ concat (replicate n ?round) \<and>
                   (\<forall>k<n. time_time ec2 (?h3 @ concat (replicate k ?round)) < ?deadline)"
    by auto
  from assms late have "deregister_image ec2 p h =
      (Fail_json (kw ''timed out waiting for image to be deregistered/deleted''), h4)"
    by (simp add: deregister_image_def wait_and_finish_def Let_def)
  with late rounds show ?thesis
    by (simp add: Let_def)
qed

text \<open>
  An image that stays retrievable, waited for 7 seconds from time 100: rounds begin at
  100, 103 and 106, and the run fails at 109.
\<close>

theorem wait_until_deadline_witness:
  "deregister_image lingering_ec2 patient_request [] =
     (Fail_json (kw ''timed out waiting for image to be deregistered/deleted''),
      [GetImage (Some ''ami-1''), DeregisterImage (Some ''ami-1'') False, GetImage (Some ''ami-1'')]
        @ round3 @ round3 @ round3) \<and>
   time_time lingering_ec2
     [GetImage (Some ''ami-1''), DeregisterImage (Some ''ami-1'') False, GetImage (Some ''ami-1'')] = 100 \<and>
   time_time lingering_ec2
     ([GetImage (Some ''ami-1''), DeregisterImage (Some ''ami-1'') False, GetImage (Some ''ami-1'')]
        @ round3 @ round3 @ round3) = 109"
proof -
  let ?im = "mk_image ''ami-1'' ''available''"
  let ?h3 = "[GetImage (Some ''ami-1''), DeregisterImage (Some ''ami-1'') False, GetImage (Some ''ami-1'')]"
  have a: "wait patient_request"
    "ec2_get_image lingering_ec2 [] (image_id patient_request) = Inr (Some ?im)"
    "img_id ?im = Some ''ami-1''"
    "ec2_deregister_image lingering_ec2 ([] @ [GetImage (image_id patient_request)])
       (image_id patient_request) (delete_snapshot patient_request) = Inr True"
    "ec2_get_image lingering_ec2
       ([] @ [GetImage (image_id patient_request),
              DeregisterImage (image_id patient_request) (delete_snapshot patient_request)])
       (image_id patient_request) = Inr (Some ?im)"
    by (simp_all add: fixture_defs)
  have loop: "wait_until_gone lingering_ec2 (image_id patient_request) (wait patient_request)
      (time_time lingering_ec2
         ([] @ [GetImage (image_id patient_request),
                DeregisterImage (image_id patient_request) (delete_snapshot patient_request),
                GetImage (image_id patient_request)]) + wait_timeout patient_request)
      (Some ?im)
      ([] @ [GetImage (image_id patient_request),
             DeregisterImage (image_id patient_request) (delete_snapshot patient_request),
             GetImage (image_id patient_request)]) =
      (Inr (Some ?im), ?h3 @ round3 @ round3 @ round3)"
    by (simp add: fixture_defs time_time_def round3_def wait_until_gone.simps)
  have clock: "time_time lingering_ec2 ?h3 = 100"
    "time_time lingering_ec2 (?h3 @ round3 @ round3 @ round3) = 109"
    by (simp_all add: fixture_defs time_time_def round3_def)
  from wait_until_deadline [OF a loop] clock show ?thesis
    by (simp add: Let_def)
qed

subsection \<open>Deleting the snapshots\<close>

text \<open>
  What \<^verbatim>\<open>finish_deregister\<close> does with \<^verbatim>\<open>delete_snapshot\<close> set, for every connection:
  whether all deletions succeed or one raises a server error of any code, the run ends
  with \<^verbatim>\<open>exit_json\<close>, \<^verbatim>\<open>changed=True\<close> and the whole captured list.
\<close>

lemma server_errors_swallowed:
  assumes "delete_snapshot p" and "delete_snapshots ec2 ss h = (Some e, h1)"
    and "server_error e = Some (c, m)"
  shows "finish_deregister ec2 p ss h =
           (Exit_json ((kw complete_msg)\<lparr>changed := Some True, snapshots_deleted := Some ss\<rparr>), h1)"
  using assms by (simp add: finish_deregister_def)

lemma all_deleted:
  assumes "delete_snapshot p" and "delete_snapshots ec2 ss h = (None, h1)"
  shows "finish_deregister ec2 p ss h =
           (Exit_json ((kw complete_msg)\<lparr>changed := Some True, snapshots_deleted := Some ss\<rparr>), h1)"
  using assms by (simp add: finish_deregister_def)

text \<open>
  C2 at an input where the code departs from it. The image has two snapshots; after the
  deregistration the first deletion raises \<^verbatim>\<open>InvalidSnapshot.InUse\<close>. The handler of
  line 561 catches it and, its code not being \<^verbatim>\<open>InvalidSnapshot.NotFound\<close>, does nothing:
  the run ends with \<^verbatim>\<open>exit_json\<close>, \<^verbatim>\<open>changed=True\<close> and both snapshots listed as
  deleted; the second deletion is never tried.
\<close>

theorem snapshot_in_use_swallowed:
  "main in_use_ec2 purge_request [] =
     (Exit_json ((kw complete_msg)
        \<lparr>changed := Some True, snapshots_deleted := Some [Some ''snap-1'', Some ''snap-2'']\<rparr>),
      [GetImage (Some ''ami-1''), DeregisterImage (Some ''ami-1'') True, GetImage (Some ''ami-1''),
       DeleteSnapshot (Some ''snap-1'')])"
  by (simp add: run_defs fixture_defs wait_until_gone.simps)

section \<open>Properties of update_image\<close>

subsection \<open>Updating launch permissions\<close>

text \<open>
  C5. \<^verbatim>\<open>update_image\<close>, once the image and its current permissions \<open>cur\<close> are
  fetched; \<open>desired\<close> is the requested dictionary after line 578. If \<open>cur\<close> equals
  \<open>desired\<close>: \<^verbatim>\<open>changed=False\<close>, and the history holds the two fetches only. Otherwise,
  if \<open>desired\<close> has any user id or group: one call of \<^verbatim>\<open>set_launch_permissions\<close> with
  \<open>desired\<close> as a whole, and \<^verbatim>\<open>changed=True\<close> when it returns (\<^verbatim>\<open>fail_json\<close> when it
  raises a server error). Otherwise, if \<open>cur\<close> has any: one call of
  \<^verbatim>\<open>remove_launch_permissions\<close> with \<open>cur\<close> as a whole, and \<^verbatim>\<open>changed=True\<close>.
  Otherwise \<^verbatim>\<open>changed=False\<close> and no further call.
\<close>

theorem update_launch_permissions:
  assumes "launch_permissions p = Some lp"
    and "ec2_get_image ec2 h (image_id p) = Inr (Some img)"
    and "img_get_launch_permissions ec2 (h @ [GetImage (image_id p)]) (img_id img) = Inr cur"
  shows "let desired = str_user_ids lp;
             h2 = h @ [GetImage (image_id p), GetLaunchPermissions (img_id img)];
             not_updated = Exit_json ((kw ''AMI not updated'')
               \<lparr>r_launch_permissions := Some cur, changed := Some False\<rparr>);
             updated = Exit_json ((kw ''AMI launch permissions updated'')
               \<lparr>r_launch_permissions := Some desired, set_perms := Some cur, changed := Some True\<rparr>)
         in (cur = desired \<longrightarrow> update_image ec2 p h = (not_updated, h2)) \<and>
            (cur \<noteq> desired \<and> has_any desired \<longrightarrow>
               update_image ec2 p h =
                 (case img_set_launch_permissions ec2 h2 (img_id img) desired of
                    Inr r \<Rightarrow> updated
                  | Inl e \<Rightarrow> on_exn e,
                  h2 @ [SetLaunchPermissions (img_id img) desired])) \<and>
            (cur \<noteq> desired \<and> \<not> has_any desired \<and> has_any cur \<longrightarrow>
               update_image ec2 p h =
                 (case img_remove_launch_permissions ec2 h2 (img_id img) cur of
                    Inr r \<Rightarrow> updated
                  | Inl e \<Rightarrow> on_exn e,
                  h2 @ [RemoveLaunchPermissions (img_id img) cur])) \<and>
            (cur \<noteq> desired \<and> \<not> has_any desired \<and> \<not> has_any cur \<longrightarrow>
               update_image ec2 p h = (not_updated, h2))"
  using assms by (auto simp: update_image_def Let_def split: sum.splits)

text \<open>
  The two examples of the specification: nothing granted yet and account 111 requested;
  account 111 granted already.
\<close>

theorem update_launch_permissions_witness:
  "update_image (shared_ec2 \<lparr>user_ids = Some [], group_names = Some []\<rparr>) update_request [] =
     (Exit_json ((kw ''AMI launch permissions updated'')
        \<lparr>r_launch_permissions := Some \<lparr>user_ids = Some [PStr ''111''], group_names = Some []\<rparr>,
         set_perms := Some \<lparr>user_ids = Some [], group_names = Some []\<rparr>, changed := Some True\<rparr>),
      [GetImage (Some ''ami-1''), GetLaunchPermissions (Some ''ami-1''),
       SetLaunchPermissions (Some ''ami-1'') \<lparr>user_ids = Some [PStr ''111''], group_names = Some []\<rparr>]) \<and>
   update_image (shared_ec2 \<lparr>user_ids = Some [PStr ''111''], group_names = Some []\<rparr>) update_request [] =
     (Exit_json ((kw ''AMI not updated'')
        \<lparr>r_launch_permissions := Some \<lparr>user_ids = Some [PStr ''111''], group_names = Some []\<rparr>,
         changed := Some False\<rparr>),
      [GetImage (Some ''ami-1''), GetLaunchPermissions (Some ''ami-1'')])"
proof -
  have lp: "launch_permissions update_request =
      Some \<lparr>user_ids = Some [PInt 111], group_names = Some []\<rparr>"
    by (simp add: update_request_def)
  have img: "ec2_get_image (shared_ec2 cur) [] (image_id update_request) =
      Inr (Some (mk_image ''ami-1'' ''available''))" for cur
    by (simp add: shared_ec2_def)
  have cur: "img_get_launch_permissions (shared_ec2 cur) ([] @ [GetImage (image_id update_request)])
      (img_id (mk_image ''ami-1'' ''available'')) = Inr cur" for cur
    by (simp add: shared_ec2_def)
  have d: "str_user_ids \<lparr>user_ids = Some [PInt 111], group_names = Some []\<rparr> =
      \<lparr>user_ids = Some [PStr ''111''], group_names = Some []\<rparr>"
    by (simp add: str_user_ids_def int_str_def nat_str.simps digit_char_def)
  from update_launch_permissions [OF lp img cur, of "\<lparr>user_ids = Some [], group_names = Some []\<rparr>"]
    update_launch_permissions [OF lp img cur, of "\<lparr>user_ids = Some [PStr ''111''], group_names = Some []\<rparr>"]
  show ?thesis
    by (simp add: d Let_def has_any_def truthy_def shared_ec2_def quiet_ec2_def mk_image_def
        update_request_def default_params_def)
qed

end
